theory Spec2Isabelle
  imports Complex_Main "HOL-Library.Multiset"
begin

section \<open>Strings\<close>

text \<open>
  A JavaScript string is modelled by the list of its UTF-8 bytes (\<^typ>\<open>string\<close>).
  The program observes strings only through concatenation, emptiness, equality with
  ASCII constants, search for ASCII keywords and the two delimiters \<open>{\<close> and \<open>}\<close>,
  lower-casing before a keyword search, and the whitespace test behind
  \<open>trim().length === 0\<close>; each of these is written on bytes below.
\<close>

definition code :: "char \<Rightarrow> nat" where
  "code c = of_char c"

text \<open>
  \<open>String.prototype.toLowerCase\<close> on the ASCII letters. Bytes of multi-byte characters
  are left as they are: the result is only searched for ASCII keywords, and no
  character outside ASCII lower-cases to letters that begin, continue or end one of
  them (U+0130 gives \<open>i\<close> followed by U+0307, U+212A gives \<open>k\<close>).
\<close>

definition lower_char :: "char \<Rightarrow> char" where
  "lower_char c = (if 65 \<le> code c \<and> code c \<le> 90 then char_of (code c + 32) else c)"

definition toLowerCase :: "string \<Rightarrow> string" where
  "toLowerCase s = map lower_char s"

fun startsWith :: "string \<Rightarrow> string \<Rightarrow> bool" where
  "startsWith s [] = True"
| "startsWith [] (k # ks) = False"
| "startsWith (c # cs) (k # ks) = (c = k \<and> startsWith cs ks)"

text \<open>\<open>s.includes(k)\<close>: \<open>k\<close> occurs in \<open>s\<close> as a contiguous block.\<close>

fun str_includes :: "string \<Rightarrow> string \<Rightarrow> bool" where
  "str_includes [] k = (k = [])"
| "str_includes (c # cs) k = (startsWith (c # cs) k \<or> str_includes cs k)"

text \<open>\<open>xs.join(sep)\<close> on an array of strings.\<close>

fun join :: "string \<Rightarrow> string list \<Rightarrow> string" where
  "join sep [] = []"
| "join sep [x] = x"
| "join sep (x # y # ys) = x @ sep @ join sep (y # ys)"

text \<open>
  \<open>s.trim().length === 0\<close>: the string consists of ECMAScript white space and line
  terminators only (U+0009..U+000D, U+0020, U+00A0, U+1680, U+2000..U+200A, U+2028,
  U+2029, U+202F, U+205F, U+3000, U+FEFF), read here in their UTF-8 form.
\<close>

fun blank :: "string \<Rightarrow> bool" where
  "blank [] = True"
| "blank [a] = (code a \<in> {9, 10, 11, 12, 13, 32})"
| "blank [a, b] =
     (if code a \<in> {9, 10, 11, 12, 13, 32} then blank [b]
      else code a = 0xC2 \<and> code b = 0xA0)"
| "blank (a # b # c # cs) =
     (if code a \<in> {9, 10, 11, 12, 13, 32} then blank (b # c # cs)
      else if code a = 0xC2 \<and> code b = 0xA0 then blank (c # cs)
      else if (code a = 0xE1 \<and> code b = 0x9A \<and> code c = 0x80)
            \<or> (code a = 0xE2 \<and> code b = 0x80 \<and>
                 ((0x80 \<le> code c \<and> code c \<le> 0x8A) \<or> code c \<in> {0xA8, 0xA9, 0xAF}))
            \<or> (code a = 0xE2 \<and> code b = 0x81 \<and> code c = 0x9F)
            \<or> (code a = 0xE3 \<and> code b = 0x80 \<and> code c = 0x80)
            \<or> (code a = 0xEF \<and> code b = 0xBB \<and> code c = 0xBF)
      then blank cs
      else False)"

section \<open>JavaScript values\<close>

text \<open>
  The values \<open>JSON.parse\<close> can return, and \<open>undefined\<close> for a property that is
  not there. A number is kept as the decimal it was written as,
  \<open>(-1)^negative * mantissa * 10^exponent\<close>. An object is the list of its members in
  source order; a later member with the same key overrides an earlier one.
\<close>

datatype jsnumber = Decimal (negative: bool) (mantissa: nat) (exponent: int)

datatype jsvalue =
    JUndefined
  | JNull
  | JBool bool
  | JNumber jsnumber
  | JString string
  | JArray "jsvalue list"
  | JObject "(string \<times> jsvalue) list"

text \<open>
  The IEEE double nearest to the decimal is \<open>\<plusminus>0\<close> exactly when the decimal is at most
  \<open>2^-1075\<close> in absolute value (half the least subnormal, the tie going to zero).
\<close>

definition is_zero :: "jsnumber \<Rightarrow> bool" where
  "is_zero n =
     (mantissa n = 0 \<or>
      (exponent n < 0 \<and> int (mantissa n) * 2 ^ 1075 \<le> 10 ^ nat (- exponent n)))"

fun truthy :: "jsvalue \<Rightarrow> bool" where
  "truthy JUndefined = False"
| "truthy JNull = False"
| "truthy (JBool b) = b"
| "truthy (JNumber n) = (\<not> is_zero n)"
| "truthy (JString s) = (s \<noteq> [])"
| "truthy (JArray xs) = True"
| "truthy (JObject ms) = True"

text \<open>\<open>a || b\<close>\<close>

definition js_or :: "jsvalue \<Rightarrow> jsvalue \<Rightarrow> jsvalue" where
  "js_or a b = (if truthy a then a else b)"

text \<open>
  Errors are values. \<open>ErrorObject m\<close> is an instance of \<open>Error\<close> with message \<open>m\<close>;
  \<open>OtherThrown s\<close> is any other thrown value, \<open>s\<close> being what \<open>String\<close> makes of it.
\<close>

datatype thrown = ErrorObject string | OtherThrown string

text \<open>
  Property read \<open>v.k\<close> for a key that \<open>Object.prototype\<close>, \<open>Array.prototype\<close> and the
  primitive wrappers do not define (\<open>verdict\<close>, \<open>reasoning\<close>): an own member of an
  object, \<open>undefined\<close> elsewhere, a \<open>TypeError\<close> on \<open>null\<close> and \<open>undefined\<close>.
\<close>

definition own_property :: "(string \<times> jsvalue) list \<Rightarrow> string \<Rightarrow> jsvalue" where
  "own_property ms k = (case map_of (rev ms) k of None \<Rightarrow> JUndefined | Some v \<Rightarrow> v)"

fun get_prop :: "jsvalue \<Rightarrow> string \<Rightarrow> thrown + jsvalue" where
  "get_prop (JObject ms) k = Inr (own_property ms k)"
| "get_prop JNull k =
     Inl (ErrorObject (''Cannot read properties of null (reading '' @ [CHR 0x27] @ k @ [CHR 0x27] @ '')''))"
| "get_prop JUndefined k =
     Inl (ErrorObject (''Cannot read properties of undefined (reading '' @ [CHR 0x27] @ k @ [CHR 0x27] @ '')''))"
| "get_prop v k = Inr JUndefined"

text \<open>
  A read \<open>literal[k]\<close> on an object literal with a key that is any string: an own
  property, or one that every object inherits from \<open>Object.prototype\<close> (a function,
  or the prototype itself for \<open>__proto__\<close>: truthy, and neither a number nor a record
  of the literal), or nothing.
\<close>

datatype 'a property = Own 'a | Inherited | Absent

definition Object_prototype_names :: "string list" where
  "Object_prototype_names =
     [''constructor'', ''__proto__'', ''hasOwnProperty'', ''isPrototypeOf'',
      ''propertyIsEnumerable'', ''toLocaleString'', ''toString'', ''valueOf'',
      ''__defineGetter__'', ''__defineSetter__'', ''__lookupGetter__'', ''__lookupSetter__'']"

definition read_property :: "(string \<times> 'a) list \<Rightarrow> string \<Rightarrow> 'a property" where
  "read_property literal k =
     (case map_of literal k of
        Some v \<Rightarrow> Own v
      | None \<Rightarrow> if k \<in> set Object_prototype_names then Inherited else Absent)"

text \<open>
  \<open>String(v)\<close>, as a template literal applies it. Printing a double is the platform's
  \<open>Number::toString\<close>, taken as the parameter \<open>nts\<close>. An object from \<open>JSON.parse\<close> with
  an own member \<open>toString\<close> has nothing callable to convert it, which is a \<open>TypeError\<close>
  (\<open>None\<close>); array elements \<open>null\<close> and \<open>undefined\<close> print as the empty string.
\<close>

fun sequence_opt :: "'a option list \<Rightarrow> 'a list option" where
  "sequence_opt [] = Some []"
| "sequence_opt (None # xs) = None"
| "sequence_opt (Some x # xs) = map_option ((#) x) (sequence_opt xs)"

fun String_js :: "(jsnumber \<Rightarrow> string) \<Rightarrow> jsvalue \<Rightarrow> string option" where
  "String_js nts JUndefined = Some ''undefined''"
| "String_js nts JNull = Some ''null''"
| "String_js nts (JBool b) = Some (if b then ''true'' else ''false'')"
| "String_js nts (JNumber n) = Some (nts n)"
| "String_js nts (JString s) = Some s"
| "String_js nts (JArray xs) =
     map_option (join '','')
       (sequence_opt (map (\<lambda>x. if x = JNull \<or> x = JUndefined then Some [] else String_js nts x) xs))"
| "String_js nts (JObject ms) =
     (if ''toString'' \<in> fst ` set ms then None else Some ''[object Object]'')"

definition cannot_convert :: thrown where
  "cannot_convert = ErrorObject ''Cannot convert object to primitive value''"

section \<open>\<open>JSON.parse\<close>\<close>

text \<open>
  The JSON grammar (ECMA-404), which \<open>JSON.parse\<close> accepts and nothing else: a lexer
  from bytes to tokens, then a pushdown recogniser. \<open>None\<close> is the \<open>SyntaxError\<close>.
\<close>

datatype token =
    LBrace | RBrace | LBracket | RBracket | Colon | Comma
  | TString string | TNumber jsnumber | TTrue | TFalse | TNull

definition is_digit :: "char \<Rightarrow> bool" where
  "is_digit c = (48 \<le> code c \<and> code c \<le> 57)"

definition hexval :: "char \<Rightarrow> nat option" where
  "hexval c =
     (if 48 \<le> code c \<and> code c \<le> 57 then Some (code c - 48)
      else if 65 \<le> code c \<and> code c \<le> 70 then Some (code c - 55)
      else if 97 \<le> code c \<and> code c \<le> 102 then Some (code c - 87)
      else None)"

text \<open>The UTF-8 bytes of the code unit an escape \<open>\uXXXX\<close> denotes.\<close>

definition utf8 :: "nat \<Rightarrow> string" where
  "utf8 n =
     (if n < 0x80 then [char_of n]
      else if n < 0x800 then [char_of (0xC0 + n div 64), char_of (0x80 + n mod 64)]
      else [char_of (0xE0 + n div 4096), char_of (0x80 + (n div 64) mod 64),
            char_of (0x80 + n mod 64)])"

definition escape_char :: "char \<Rightarrow> char option" where
  "escape_char e =
     (if e = CHR 0x22 then Some (CHR 0x22)
      else if e = CHR 0x5C then Some (CHR 0x5C)
      else if e = CHR ''/'' then Some (CHR ''/'')
      else if e = CHR ''b'' then Some (CHR 0x08)
      else if e = CHR ''f'' then Some (CHR 0x0C)
      else if e = CHR ''n'' then Some (CHR 0x0A)
      else if e = CHR ''r'' then Some (CHR 0x0D)
      else if e = CHR ''t'' then Some (CHR 0x09)
      else None)"

text \<open>
  The body of a string literal, after its opening quote: the decoded string and the
  input that follows the closing quote.
\<close>

fun lex_string :: "string \<Rightarrow> (string \<times> string) option" where
  "lex_string [] = None"
| "lex_string (c # cs) =
     (if c = CHR 0x22 then Some ([], cs)
      else if c = CHR 0x5C then
        (case cs of
           [] \<Rightarrow> None
         | e # es \<Rightarrow>
             if e = CHR ''u'' then
               (case es of
                  h1 # h2 # h3 # h4 # r \<Rightarrow>
                    (case (hexval h1, hexval h2, hexval h3, hexval h4) of
                       (Some a, Some b, Some c', Some d) \<Rightarrow>
                         (case lex_string r of
                            None \<Rightarrow> None
                          | Some (s, rest) \<Rightarrow>
                              Some (utf8 (((a * 16 + b) * 16 + c') * 16 + d) @ s, rest))
                     | _ \<Rightarrow> None)
                | _ \<Rightarrow> None)
             else
               (case escape_char e of
                  None \<Rightarrow> None
                | Some x \<Rightarrow>
                    (case lex_string es of
                       None \<Rightarrow> None
                     | Some (s, rest) \<Rightarrow> Some (x # s, rest))))
      else if code c < 0x20 then None
      else
        (case lex_string cs of
           None \<Rightarrow> None
         | Some (s, rest) \<Rightarrow> Some (c # s, rest)))"

definition digits_val :: "string \<Rightarrow> nat" where
  "digits_val ds = foldl (\<lambda>a c. a * 10 + (code c - 48)) 0 ds"

text \<open>
  A number lexeme: \<open>-? (0 | [1-9][0-9]*) (. [0-9]+)? ([eE] [+-]? [0-9]+)?\<close>.
\<close>

definition parse_exponent :: "string \<Rightarrow> int option" where
  "parse_exponent s =
     (case s of
        [] \<Rightarrow> Some 0
      | e # r \<Rightarrow>
          if e = CHR ''e'' \<or> e = CHR ''E'' then
            (let neg = (r \<noteq> [] \<and> hd r = CHR ''-'');
                 ds = (if r \<noteq> [] \<and> (hd r = CHR ''-'' \<or> hd r = CHR ''+'') then tl r else r)
             in if ds = [] \<or> \<not> list_all is_digit ds then None
                else Some (if neg then - int (digits_val ds) else int (digits_val ds)))
          else None)"

definition parse_number :: "string \<Rightarrow> jsnumber option" where
  "parse_number s =
     (let neg = (s \<noteq> [] \<and> hd s = CHR ''-'');
          r0 = (if neg then tl s else s);
          ip = takeWhile is_digit r0;
          r1 = dropWhile is_digit r0;
          has_frac = (r1 \<noteq> [] \<and> hd r1 = CHR ''.'');
          fp = (if has_frac then takeWhile is_digit (tl r1) else []);
          r2 = (if has_frac then dropWhile is_digit (tl r1) else r1)
      in if ip = [] \<or> (1 < length ip \<and> hd ip = CHR ''0'') \<or> (has_frac \<and> fp = []) then None
         else (case parse_exponent r2 of
                 None \<Rightarrow> None
               | Some e \<Rightarrow> Some (Decimal neg (digits_val (ip @ fp)) (e - int (length fp)))))"

definition is_numchar :: "char \<Rightarrow> bool" where
  "is_numchar c =
     (is_digit c \<or> c = CHR ''-'' \<or> c = CHR ''+'' \<or> c = CHR ''.'' \<or> c = CHR ''e'' \<or> c = CHR ''E'')"

lemma lex_string_shorter:
  "lex_string cs = Some (s, rest) \<Longrightarrow> length rest < Suc (length cs)"
proof (induction cs arbitrary: s rest rule: lex_string.induct)
  case 1
  then show ?case by simp
next
  case (2 c cs)
  then show ?case
    by (fastforce split: if_splits list.splits option.splits prod.splits)
qed

definition is_ws :: "char \<Rightarrow> bool" where
  "is_ws c = (c = CHR '' '' \<or> c = CHR 0x09 \<or> c = CHR 0x0A \<or> c = CHR 0x0D)"

definition punctuation :: "char \<Rightarrow> token option" where
  "punctuation c =
     (if c = CHR ''{'' then Some LBrace
      else if c = CHR ''}'' then Some RBrace
      else if c = CHR ''['' then Some LBracket
      else if c = CHR '']'' then Some RBracket
      else if c = CHR '':'' then Some Colon
      else if c = CHR '','' then Some Comma
      else None)"

text \<open>A literal name at the head of the input: its token and its length.\<close>

definition literal_name :: "string \<Rightarrow> (token \<times> nat) option" where
  "literal_name s =
     (if startsWith s ''true'' then Some (TTrue, 4)
      else if startsWith s ''false'' then Some (TFalse, 5)
      else if startsWith s ''null'' then Some (TNull, 4)
      else None)"

function lex :: "string \<Rightarrow> token list option" where
  "lex [] = Some []"
| "lex (c # cs) =
     (if is_ws c then lex cs
      else case punctuation c of
        Some t \<Rightarrow> map_option ((#) t) (lex cs)
      | None \<Rightarrow>
          if c = CHR 0x22 then
            (case lex_string cs of
               None \<Rightarrow> None
             | Some (s, rest) \<Rightarrow> map_option ((#) (TString s)) (lex rest))
          else if c = CHR ''-'' \<or> is_digit c then
            (case parse_number (c # takeWhile is_numchar cs) of
               None \<Rightarrow> None
             | Some n \<Rightarrow> map_option ((#) (TNumber n)) (lex (dropWhile is_numchar cs)))
          else
            (case literal_name (c # cs) of
               None \<Rightarrow> None
             | Some (t, n) \<Rightarrow> map_option ((#) t) (lex (drop (n - 1) cs))))"
  by pat_completeness auto
termination
proof (relation "measure length")
  show "wf (measure length)" by simp
next
  fix c :: char and cs :: string
  show "(cs, c # cs) \<in> measure length" by simp
next
  fix c :: char and cs :: string and t :: token
  show "(cs, c # cs) \<in> measure length" by simp
next
  fix c :: char and cs x y :: string and x2
  assume "lex_string cs = Some x2" "(x, y) = x2"
  then have "lex_string cs = Some (x, y)" by simp
  then show "(y, c # cs) \<in> measure length"
    using lex_string_shorter by simp
next
  fix c :: char and cs :: string
  have "length (dropWhile is_numchar cs) \<le> length cs"
    by (rule length_dropWhile_le)
  then show "(dropWhile is_numchar cs, c # cs) \<in> measure length" by simp
next
  fix c :: char and cs :: string and n :: nat
  show "(drop (n - 1) cs, c # cs) \<in> measure length" by simp
qed

text \<open>
  The recogniser keeps the open containers on a stack and knows what may come next.
\<close>

datatype frame =
    FArray "jsvalue list"
  | FObject "(string \<times> jsvalue) list"
  | FMember "(string \<times> jsvalue) list" string

datatype expect =
    ExpValue
  | ExpValueOrClose
  | ExpKeyOrClose
  | ExpKey
  | ExpColon string
  | ExpCommaOrClose
  | Finished jsvalue

text \<open>A completed value goes to the innermost open container (kept in reverse).\<close>

fun deliver :: "jsvalue \<Rightarrow> frame list \<Rightarrow> (frame list \<times> expect) option" where
  "deliver v [] = Some ([], Finished v)"
| "deliver v (FArray es # st) = Some (FArray (v # es) # st, ExpCommaOrClose)"
| "deliver v (FMember ms k # st) = Some (FObject ((k, v) # ms) # st, ExpCommaOrClose)"
| "deliver v (FObject ms # st) = None"

fun start_value :: "token \<Rightarrow> frame list \<Rightarrow> (frame list \<times> expect) option" where
  "start_value LBrace st = Some (FObject [] # st, ExpKeyOrClose)"
| "start_value LBracket st = Some (FArray [] # st, ExpValueOrClose)"
| "start_value (TString s) st = deliver (JString s) st"
| "start_value (TNumber n) st = deliver (JNumber n) st"
| "start_value TTrue st = deliver (JBool True) st"
| "start_value TFalse st = deliver (JBool False) st"
| "start_value TNull st = deliver JNull st"
| "start_value t st = None"

fun step :: "frame list \<times> expect \<Rightarrow> token \<Rightarrow> (frame list \<times> expect) option" where
  "step (st, ExpValue) t = start_value t st"
| "step (FArray es # st, ExpValueOrClose) t =
     (if t = RBracket then deliver (JArray (rev es)) st else start_value t (FArray es # st))"
| "step (FObject ms # st, ExpKeyOrClose) t =
     (case t of
        RBrace \<Rightarrow> deliver (JObject (rev ms)) st
      | TString k \<Rightarrow> Some (FObject ms # st, ExpColon k)
      | _ \<Rightarrow> None)"
| "step (FObject ms # st, ExpKey) t =
     (case t of TString k \<Rightarrow> Some (FObject ms # st, ExpColon k) | _ \<Rightarrow> None)"
| "step (FObject ms # st, ExpColon k) t =
     (if t = Colon then Some (FMember ms k # st, ExpValue) else None)"
| "step (FArray es # st, ExpCommaOrClose) t =
     (if t = Comma then Some (FArray es # st, ExpValue)
      else if t = RBracket then deliver (JArray (rev es)) st
      else None)"
| "step (FObject ms # st, ExpCommaOrClose) t =
     (if t = Comma then Some (FObject ms # st, ExpKey)
      else if t = RBrace then deliver (JObject (rev ms)) st
      else None)"
| "step (st, e) t = None"

fun run :: "frame list \<times> expect \<Rightarrow> token list \<Rightarrow> jsvalue option" where
  "run (st, e) [] = (case (st, e) of ([], Finished v) \<Rightarrow> Some v | _ \<Rightarrow> None)"
| "run (st, e) (t # ts) =
     (case step (st, e) t of None \<Rightarrow> None | Some cfg \<Rightarrow> run cfg ts)"

definition JSON_parse :: "string \<Rightarrow> jsvalue option" where
  "JSON_parse s = (case lex s of None \<Rightarrow> None | Some ts \<Rightarrow> run ([], ExpValue) ts)"

section \<open>Data model\<close>

text \<open>\<open>database-types.ts\<close> and \<open>api-types.ts\<close>. An optional or nullable field is an option.\<close>

record Attachment =
  attachment_id :: string
  att_answer_id :: string
  url :: string
  att_type :: "string option"
  file_size :: "nat option"
  att_created_at :: "string option"

record Judge =
  judge_id :: string
  judge_name :: string
  judge_provider :: string
  judge_model :: string
  judge_prompt :: string
  is_active :: "bool option"
  judge_created_at :: "string option"

text \<open>
  \<open>EvaluationResult\<close>. The declared field types are \<open>Verdict\<close> and \<open>string\<close>; what an
  adapter puts there at run time is whatever the model's JSON held, so both fields are
  JavaScript values and \<open>parseEvaluationResponse\<close> checks them.
\<close>

record EvaluationResult =
  verdict :: jsvalue
  reasoning :: jsvalue

record EvaluationContext =
  questionText :: string
  questionType :: string
  answerData :: jsvalue
  attachments :: "Attachment list option"

section \<open>Provider adapters (\<open>providers/openai.ts\<close>, \<open>anthropic.ts\<close>, \<open>gemini.ts\<close>)\<close>

datatype provider_class = OpenAIProvider | AnthropicProvider | GeminiProvider

text \<open>
  An adapter instance: its class and the options its constructor hands to the vendor
  SDK, \<open>apiKey: apiKey || process.env.KEY\<close> and \<open>baseURL\<close> when one is given.
\<close>

record ProviderInstance =
  cls :: provider_class
  sdk_apiKey :: "string option"
  sdk_baseURL :: "string option"

definition key_variable :: "provider_class \<Rightarrow> string" where
  "key_variable c =
     (case c of
        OpenAIProvider \<Rightarrow> ''OPENAI_API_KEY''
      | AnthropicProvider \<Rightarrow> ''ANTHROPIC_API_KEY''
      | GeminiProvider \<Rightarrow> ''GOOGLE_AI_API_KEY'')"

definition new_provider ::
  "(string \<Rightarrow> string option) \<Rightarrow> provider_class \<Rightarrow> string \<Rightarrow> string option \<Rightarrow> ProviderInstance" where
  "new_provider env c apiKey baseUrl =
     \<lparr> cls = c,
       sdk_apiKey = (if apiKey \<noteq> [] then Some apiKey else env (key_variable c)),
       sdk_baseURL = (case baseUrl of Some b \<Rightarrow> (if b \<noteq> [] then Some b else None) | None \<Rightarrow> None) \<rparr>"

definition provider_name :: "provider_class \<Rightarrow> string" where
  "provider_name c =
     (case c of
        OpenAIProvider \<Rightarrow> ''openai''
      | AnthropicProvider \<Rightarrow> ''anthropic''
      | GeminiProvider \<Rightarrow> ''gemini'')"

definition supportsAttachments :: "provider_class \<Rightarrow> bool" where
  "supportsAttachments c = True"

definition supportsVision :: "provider_class \<Rightarrow> bool" where
  "supportsVision c = True"

text \<open>Each class's own \<open>validateModel\<close>.\<close>

definition adapter_validateModel :: "provider_class \<Rightarrow> string \<Rightarrow> bool" where
  "adapter_validateModel c m =
     (case c of
        OpenAIProvider \<Rightarrow>
          m \<in> set [''gpt-4'', ''gpt-4-turbo'', ''gpt-4o'', ''gpt-4o-mini'', ''gpt-3.5-turbo'']
      | AnthropicProvider \<Rightarrow>
          m \<in> set [''claude-3-5-sonnet-20241022'', ''claude-3-5-haiku-20241022'',
                    ''claude-3-opus-20240229'', ''claude-3-sonnet-20240229'',
                    ''claude-3-haiku-20240307'']
      | GeminiProvider \<Rightarrow>
          m \<in> set [''gemini-2.0-flash-exp'', ''gemini-1.5-pro'', ''gemini-1.5-flash'',
                    ''gemini-1.0-pro''])"

subsection \<open>\<open>parseEvaluationResult\<close>\<close>

text \<open>
  \<open>text.match(/\{[\s\S]*\}/)\<close>: the regular expression is greedy, so the match runs
  from the first \<open>{\<close> to the last \<open>}\<close> of the text; there is none when no \<open>}\<close> follows
  the first \<open>{\<close>.
\<close>

definition jsonMatch :: "string \<Rightarrow> string option" where
  "jsonMatch text =
     (let from_brace = dropWhile (\<lambda>c. c \<noteq> CHR ''{'') text;
          m = rev (dropWhile (\<lambda>c. c \<noteq> CHR ''}'') (rev from_brace))
      in if m = [] then None else Some m)"

definition syntax_error :: thrown where
  "syntax_error = ErrorObject ''Unexpected token in JSON''"

definition JSON_parse_or_throw :: "string \<Rightarrow> thrown + jsvalue" where
  "JSON_parse_or_throw s = (case JSON_parse s of None \<Rightarrow> Inl syntax_error | Some v \<Rightarrow> Inr v)"

text \<open>The keyword scan of the fallback: the first branch that matches decides.\<close>

definition keyword_verdict :: "string \<Rightarrow> string" where
  "keyword_verdict text =
     (let lowerText = toLowerCase text
      in if str_includes lowerText ''pass'' \<or> str_includes lowerText ''correct''
            \<or> str_includes lowerText ''good''
         then ''pass''
         else if str_includes lowerText ''fail'' \<or> str_includes lowerText ''incorrect''
            \<or> str_includes lowerText ''bad''
         then ''fail''
         else ''inconclusive'')"

text \<open>The body of the \<open>try\<close> block; \<open>Inl\<close> is what it throws.\<close>

definition parse_try :: "string \<Rightarrow> thrown + EvaluationResult" where
  "parse_try text =
     (case jsonMatch text of
        Some m \<Rightarrow>
          (case JSON_parse_or_throw m of
             Inl e \<Rightarrow> Inl e
           | Inr parsed \<Rightarrow>
               (case get_prop parsed ''verdict'' of
                  Inl e \<Rightarrow> Inl e
                | Inr v \<Rightarrow>
                    (case get_prop parsed ''reasoning'' of
                       Inl e \<Rightarrow> Inl e
                     | Inr r \<Rightarrow>
                         Inr \<lparr> verdict = js_or v (JString ''inconclusive''),
                               reasoning = js_or r (JString text) \<rparr>)))
      | None \<Rightarrow>
          Inr \<lparr> verdict = JString (keyword_verdict text), reasoning = JString text \<rparr>)"

text \<open>
  The three classes carry the same method, character for character; the class is kept
  as an argument so that a statement can speak of every adapter.
\<close>

definition parseEvaluationResult :: "provider_class \<Rightarrow> string \<Rightarrow> EvaluationResult" where
  "parseEvaluationResult c text =
     (case parse_try text of
        Inr r \<Rightarrow> r
      | Inl e \<Rightarrow> \<lparr> verdict = JString ''inconclusive'', reasoning = JString text \<rparr>)"

subsection \<open>\<open>evaluate\<close>\<close>

text \<open>A JavaScript \<open>number\<close> that is only handed on (a temperature, a token count) is a real.\<close>

record LLMRequest =
  systemPrompt :: string
  userPrompt :: string
  req_context :: EvaluationContext
  model :: string
  temperature :: "real option"
  maxTokens :: "real option"

record Usage =
  promptTokens :: real
  completionTokens :: real
  totalTokens :: real

record LLMResponse =
  result :: EvaluationResult
  usage :: "Usage option"

text \<open>
  The vendor SDK's \<open>generateText\<close> is outside the repository. What an adapter passes
  to it is \<open>GenerateTextArgs\<close> (\<open>maxOutputTokens = None\<close>: the option is not passed);
  what it answers, or throws, is an input of the model.
\<close>

record GenerateTextArgs =
  call_instance :: ProviderInstance
  call_model :: string
  call_system :: string
  call_prompt :: string
  call_temperature :: real
  maxOutputTokens :: "real option"

record SdkUsage =
  inputTokens :: "real option"
  outputTokens :: "real option"
  sdk_totalTokens :: "real option"

record GenerateTextResult =
  gen_text :: string
  gen_usage :: "SdkUsage option"

type_synonym generateText = "GenerateTextArgs \<Rightarrow> thrown + GenerateTextResult"

definition is_image :: "Attachment \<Rightarrow> bool" where
  "is_image att = (case att_type att of Some t \<Rightarrow> startsWith t ''image/'' | None \<Rightarrow> False)"

text \<open>\<open>cacheId\<close> is the value \<open>crypto.randomUUID()\<close> returned.\<close>

definition promptContent :: "provider_class \<Rightarrow> string \<Rightarrow> LLMRequest \<Rightarrow> string" where
  "promptContent c cacheId request =
     (let userPromptWithCacheBuster =
            userPrompt request @ ''\<newline>\<newline><!-- Request ID: '' @ cacheId @ '' -->''
      in case attachments (req_context request) of
           Some atts \<Rightarrow>
             if 0 < length atts \<and> supportsVision c then
               userPromptWithCacheBuster @ ''\<newline>\<newline>Attached images:\<newline>''
                 @ join ''\<newline>'' (map url (filter is_image atts))
             else userPromptWithCacheBuster
         | None \<Rightarrow> userPromptWithCacheBuster)"

definition nullish :: "'a option \<Rightarrow> 'a \<Rightarrow> 'a" where
  "nullish x d = (case x of Some v \<Rightarrow> v | None \<Rightarrow> d)"

text \<open>
  The argument of \<open>generateText\<close>. \<open>OpenAIProvider\<close> and \<open>AnthropicProvider\<close> pass
  \<open>maxOutputTokens: request.maxTokens ?? 1000\<close>; \<open>GeminiProvider\<close> passes no
  \<open>maxOutputTokens\<close>.
\<close>

definition generateText_args :: "ProviderInstance \<Rightarrow> string \<Rightarrow> LLMRequest \<Rightarrow> GenerateTextArgs" where
  "generateText_args p cacheId request =
     \<lparr> call_instance = p,
       call_model = model request,
       call_system = systemPrompt request,
       call_prompt = promptContent (cls p) cacheId request,
       call_temperature = nullish (temperature request) 0.7,
       maxOutputTokens =
         (case cls p of
            OpenAIProvider \<Rightarrow> Some (nullish (maxTokens request) 1000)
          | AnthropicProvider \<Rightarrow> Some (nullish (maxTokens request) 1000)
          | GeminiProvider \<Rightarrow> None) \<rparr>"

definition response_usage :: "provider_class \<Rightarrow> GenerateTextResult \<Rightarrow> Usage" where
  "response_usage c r =
     (case c of
        GeminiProvider \<Rightarrow> \<lparr> promptTokens = 0, completionTokens = 0, totalTokens = 0 \<rparr>
      | _ \<Rightarrow>
          \<lparr> promptTokens = nullish (Option.bind (gen_usage r) inputTokens) 0,
            completionTokens = nullish (Option.bind (gen_usage r) outputTokens) 0,
            totalTokens = nullish (Option.bind (gen_usage r) sdk_totalTokens) 0 \<rparr>)"

definition failure_prefix :: "provider_class \<Rightarrow> string" where
  "failure_prefix c =
     (case c of
        OpenAIProvider \<Rightarrow> ''OpenAI evaluation failed: ''
      | AnthropicProvider \<Rightarrow> ''Anthropic evaluation failed: ''
      | GeminiProvider \<Rightarrow> ''Gemini evaluation failed: '')"

definition evaluate ::
  "generateText \<Rightarrow> string \<Rightarrow> ProviderInstance \<Rightarrow> LLMRequest \<Rightarrow> thrown + LLMResponse" where
  "evaluate gen cacheId p request =
     (case gen (generateText_args p cacheId request) of
        Inr r \<Rightarrow>
          Inr \<lparr> result = parseEvaluationResult (cls p) (gen_text r),
                usage = Some (response_usage (cls p) r) \<rparr>
      | Inl e \<Rightarrow>
          Inl (ErrorObject
                 (failure_prefix (cls p)
                    @ (case e of ErrorObject m \<Rightarrow> m | OtherThrown s \<Rightarrow> ''Unknown error''))))"

section \<open>Provider factory and registry (\<open>provider-factory.ts\<close>, \<open>client.ts\<close>)\<close>

record ProviderConfig =
  config_class :: provider_class
  models :: "string list"

text \<open>
  \<open>PROVIDER_CONFIGS\<close>, in the order of the object literal.
\<close>

definition PROVIDER_CONFIGS :: "(string \<times> ProviderConfig) list" where
  "PROVIDER_CONFIGS =
     [(''openai'',
        \<lparr> config_class = OpenAIProvider,
          models = [''gpt-4'', ''gpt-4-turbo'', ''gpt-3.5-turbo'', ''gpt-4o'', ''gpt-4o-mini''] \<rparr>),
      (''anthropic'',
        \<lparr> config_class = AnthropicProvider,
          models = [''claude-3-5-sonnet-20241022'', ''claude-3-5-haiku-20241022'',
                    ''claude-3-opus-20240229''] \<rparr>),
      (''gemini'',
        \<lparr> config_class = GeminiProvider,
          models = [''gemini-2.0-flash-exp'', ''gemini-1.5-pro'', ''gemini-1.5-flash'',
                    ''gemini-1.0-pro''] \<rparr>)]"

type_synonym environment = "string \<Rightarrow> string option"

text \<open>
  For an inherited name \<open>config\<close> is truthy and has neither \<open>class\<close> nor \<open>models\<close>:
  \<open>new config.class(...)\<close> and \<open>config.models.includes(...)\<close> throw a \<open>TypeError\<close>.
\<close>

definition createProvider ::
  "environment \<Rightarrow> string \<Rightarrow> string \<Rightarrow> string option \<Rightarrow> thrown + ProviderInstance" where
  "createProvider env provider apiKey baseUrl =
     (case read_property PROVIDER_CONFIGS provider of
        Absent \<Rightarrow> Inl (ErrorObject (''Unsupported provider: '' @ provider))
      | Inherited \<Rightarrow> Inl (ErrorObject ''config.class is not a constructor'')
      | Own config \<Rightarrow> Inr (new_provider env (config_class config) apiKey baseUrl))"

definition validateModel :: "string \<Rightarrow> string \<Rightarrow> thrown + bool" where
  "validateModel provider m =
     (case read_property PROVIDER_CONFIGS provider of
        Own config \<Rightarrow> Inr (m \<in> set (models config))
      | Inherited \<Rightarrow>
          Inl (ErrorObject (''Cannot read properties of undefined (reading ''
                 @ [CHR 0x27] @ ''includes'' @ [CHR 0x27] @ '')''))
      | Absent \<Rightarrow> Inr False)"

definition getAvailableProviders :: "string list" where
  "getAvailableProviders = map fst PROVIDER_CONFIGS"

text \<open>\<open>LLMClient\<close>: the map \<open>providers\<close>, filled once by the constructor.\<close>

record LLMClient =
  providers :: "string \<rightharpoonup> ProviderInstance"

text \<open>
  One \<open>if (key) this.providers.set(name, createProvider(name, key))\<close> of
  \<open>initializeProviders\<close>; a key that is unset or empty is falsy.
\<close>

definition register_if_key ::
  "environment \<Rightarrow> string \<Rightarrow> string \<Rightarrow> LLMClient \<Rightarrow> thrown + LLMClient" where
  "register_if_key env name variable client =
     (case env variable of
        None \<Rightarrow> Inr client
      | Some key \<Rightarrow>
          if key = [] then Inr client
          else (case createProvider env name key None of
                  Inl e \<Rightarrow> Inl e
                | Inr p \<Rightarrow> Inr (client\<lparr> providers := (providers client)(name \<mapsto> p) \<rparr>)))"

definition initializeProviders :: "environment \<Rightarrow> LLMClient \<Rightarrow> thrown + LLMClient" where
  "initializeProviders env client =
     (case register_if_key env ''openai'' ''OPENAI_API_KEY'' client of
        Inl e \<Rightarrow> Inl e
      | Inr c1 \<Rightarrow>
          (case register_if_key env ''anthropic'' ''ANTHROPIC_API_KEY'' c1 of
             Inl e \<Rightarrow> Inl e
           | Inr c2 \<Rightarrow> register_if_key env ''gemini'' ''GOOGLE_AI_API_KEY'' c2))"

text \<open>\<open>new LLMClient()\<close>, which is how the singleton \<open>llmClient\<close> is made.\<close>

definition new_LLMClient :: "environment \<Rightarrow> thrown + LLMClient" where
  "new_LLMClient env = initializeProviders env \<lparr> providers = Map.empty \<rparr>"

definition getProvider :: "LLMClient \<Rightarrow> string \<Rightarrow> thrown + ProviderInstance" where
  "getProvider client provider =
     (case providers client provider of
        None \<Rightarrow> Inl (ErrorObject (''Provider '' @ provider @ '' is not configured or not available''))
      | Some providerInstance \<Rightarrow> Inr providerInstance)"

definition isProviderAvailable :: "LLMClient \<Rightarrow> string \<Rightarrow> bool" where
  "isProviderAvailable client provider = (providers client provider \<noteq> None)"

definition client_getAvailableProviders :: "LLMClient \<Rightarrow> string list" where
  "client_getAvailableProviders client = getAvailableProviders"

definition validateProviderConfig :: "LLMClient \<Rightarrow> string \<Rightarrow> string \<Rightarrow> thrown + bool" where
  "validateProviderConfig client provider m = validateModel provider m"

section \<open>Prompt builder (\<open>prompt-builder.ts\<close>)\<close>

text \<open>
  The platform functions that format a double or a JSON text; the prompt builder and
  the executor hand their results on and never look inside them.
\<close>

record platform =
  Number_toString :: "jsnumber \<Rightarrow> string"
  JSON_stringify :: "jsvalue \<Rightarrow> nat \<Rightarrow> string"

text \<open>
  \<open>JudgeConfigMetadata.includedFields\<close> declares four flags. A caller's object may carry
  more properties than the declared ones (the executor's literal has a fifth,
  \<open>submissionMetadata\<close>, and a context object may carry a \<open>submissionMetadata\<close>
  property); the builder's methods take the records with any extension.
\<close>

record IncludedFields =
  inc_questionText :: bool
  inc_questionType :: bool
  inc_answerData :: bool
  inc_attachments :: bool

record IncludedFieldsWithMetadata = IncludedFields +
  inc_submissionMetadata :: bool

record EvaluationContextWithMetadata = EvaluationContext +
  submissionMetadata :: jsvalue

record 'a PromptBuilder =
  judgeCustomPrompt :: string
  includedFields :: "'a IncludedFields_scheme"

record PromptAttachment =
  pa_url :: string
  pa_type :: string
  pa_name :: string

record EvaluationPrompt =
  ep_systemPrompt :: string
  ep_userPrompt :: string
  ep_context :: EvaluationContext
  ep_attachments :: "PromptAttachment list option"

definition getBaseEvaluationInstructions :: string where
  \<open>getBaseEvaluationInstructions = join ''\<newline>''
     [''You are an AI judge evaluating submissions. Your role is to assess whether submissions meet the expected criteria.'',
      [],
      ''You must provide your assessment in the following JSON format:'',
      [],
      ''{'',
      ''  "verdict": "pass" | "fail" | "inconclusive",'',
      ''  "reasoning": "Your detailed explanation of the evaluation decision"'',
      ''}'',
      [],
      ''Verdict Guidelines:'',
      ''- "pass": The submission meets the expected criteria'',
      ''- "fail": The submission does not meet the expected criteria'',
      ''- "inconclusive": Unable to determine due to insufficient information or ambiguity'',
      [],
      ''Evaluation Principles:'',
      ''- Provide clear, specific reasoning for your decision'',
      ''- Consider the context and any relevant information'',
      ''- Be objective and fair in your assessment'',
      ''- Follow the specific evaluation criteria provided below'',
      [],
      ''IMPORTANT: You must respond with ONLY the JSON object, no additional text before or after.'']\<close>

definition buildSystemPrompt :: "'a PromptBuilder \<Rightarrow> string" where
  "buildSystemPrompt this =
     judgeCustomPrompt this @ ''\<newline>\<newline>'' @ getBaseEvaluationInstructions"

text \<open>
  An array item of the answer: \<open>typeof item === "object" ? JSON.stringify(item) :
  String(item)\<close>; \<open>null\<close>, arrays and objects have type \<open>"object"\<close>.
\<close>

definition format_item :: "platform \<Rightarrow> jsvalue \<Rightarrow> string" where
  "format_item pf item =
     (case item of
        JNull \<Rightarrow> JSON_stringify pf item 0
      | JArray xs \<Rightarrow> JSON_stringify pf item 0
      | JObject ms \<Rightarrow> JSON_stringify pf item 0
      | JUndefined \<Rightarrow> ''undefined''
      | JBool b \<Rightarrow> (if b then ''true'' else ''false'')
      | JNumber n \<Rightarrow> Number_toString pf n
      | JString s \<Rightarrow> s)"

definition formatAnswerData :: "platform \<Rightarrow> jsvalue \<Rightarrow> string" where
  "formatAnswerData pf a =
     (case a of
        JString s \<Rightarrow> s
      | JArray items \<Rightarrow> join '', '' (map (format_item pf) items)
      | JObject ms \<Rightarrow> JSON_stringify pf a 2
      | JNull \<Rightarrow> JSON_stringify pf a 2
      | JUndefined \<Rightarrow> ''undefined''
      | JBool b \<Rightarrow> (if b then ''true'' else ''false'')
      | JNumber n \<Rightarrow> Number_toString pf n)"

text \<open>\<open>attachment.type || d\<close>\<close>

definition type_or :: "Attachment \<Rightarrow> string \<Rightarrow> string" where
  "type_or att d = (case att_type att of Some t \<Rightarrow> (if t \<noteq> [] then t else d) | None \<Rightarrow> d)"

definition formatAttachments :: "Attachment list \<Rightarrow> string" where
  "formatAttachments atts =
     join ''\<newline>'' (map (\<lambda>att. join '' '' [type_or att ''file'', ''- '' @ url att]) atts)"

definition closing_instruction :: string where
  "closing_instruction =
     ''Please evaluate the above submission according to your criteria and provide your assessment.''"

text \<open>The array \<open>sections\<close> after the four conditional \<open>push\<close>es.\<close>

definition sections :: "platform \<Rightarrow> 'a PromptBuilder \<Rightarrow> 'b EvaluationContext_scheme \<Rightarrow> string list" where
  "sections pf this ctx =
     (if inc_questionText (includedFields this) then [''Question: '' @ questionText ctx] else [])
     @ (if inc_questionType (includedFields this)
        then [''Question Type: '' @ questionType ctx] else [])
     @ (if inc_answerData (includedFields this)
        then [''Answer: '' @ formatAnswerData pf (answerData ctx)] else [])
     @ (case attachments ctx of
          Some atts \<Rightarrow>
            if inc_attachments (includedFields this) \<and> 0 < length atts
            then [''Attachments: '' @ formatAttachments atts] else []
        | None \<Rightarrow> [])"

definition buildUserPrompt :: "platform \<Rightarrow> 'a PromptBuilder \<Rightarrow> 'b EvaluationContext_scheme \<Rightarrow> string" where
  "buildUserPrompt pf this ctx =
     join ''\<newline>\<newline>'' (sections pf this ctx) @ ''\<newline>\<newline>'' @ closing_instruction"

definition buildPrompt :: "platform \<Rightarrow> 'a PromptBuilder \<Rightarrow> EvaluationContext \<Rightarrow> EvaluationPrompt" where
  "buildPrompt pf this ctx =
     \<lparr> ep_systemPrompt = buildSystemPrompt this,
       ep_userPrompt = buildUserPrompt pf this ctx,
       ep_context = ctx,
       ep_attachments =
         map_option
           (map (\<lambda>att. \<lparr> pa_url = url att, pa_type = type_or att [], pa_name = type_or att ''file'' \<rparr>))
           (attachments ctx) \<rparr>"

section \<open>Evaluation executor (\<open>evaluation-executor.ts\<close>)\<close>

definition validVerdicts :: "jsvalue list" where
  "validVerdicts = [JString ''pass'', JString ''fail'', JString ''inconclusive'']"

definition trim_not_a_function :: thrown where
  "trim_not_a_function = ErrorObject ''result.reasoning.trim is not a function''"

text \<open>
  \<open>parseEvaluationResponse\<close>. The template literal of the first branch converts both
  fields with \<open>String\<close>; the second test calls \<open>trim\<close> on a truthy \<open>reasoning\<close>, which
  only a string has. What either throws is \<open>Inl\<close>.
\<close>

definition parseEvaluationResponse :: "platform \<Rightarrow> EvaluationResult \<Rightarrow> thrown + EvaluationResult" where
  "parseEvaluationResponse pf r =
     (if verdict r \<notin> set validVerdicts then
        (case String_js (Number_toString pf) (verdict r) of
           None \<Rightarrow> Inl cannot_convert
         | Some v \<Rightarrow>
             (case String_js (Number_toString pf)
                     (js_or (reasoning r) (JString ''No reasoning provided.'')) of
                None \<Rightarrow> Inl cannot_convert
              | Some why \<Rightarrow>
                  Inr \<lparr> verdict = JString ''inconclusive'',
                        reasoning = JString (''Invalid verdict received: '' @ v @ ''. '' @ why) \<rparr>))
      else if \<not> truthy (reasoning r) then
        Inr (r\<lparr> reasoning := JString ''No detailed reasoning provided by the judge.'' \<rparr>)
      else
        (case reasoning r of
           JString s \<Rightarrow>
             if blank s
             then Inr (r\<lparr> reasoning := JString ''No detailed reasoning provided by the judge.'' \<rparr>)
             else Inr r
         | _ \<Rightarrow> Inl trim_not_a_function))"

text \<open>The field-inclusion literal the executor passes.\<close>

definition executor_fields :: IncludedFieldsWithMetadata where
  "executor_fields =
     \<lparr> inc_questionText = True, inc_questionType = True, inc_answerData = True,
       inc_attachments = True, inc_submissionMetadata = True \<rparr>"

text \<open>The request the executor sends to the adapter.\<close>

definition executor_request :: "platform \<Rightarrow> Judge \<Rightarrow> EvaluationContext \<Rightarrow> LLMRequest" where
  "executor_request pf judge ctx =
     (let promptBuilder =
            \<lparr> judgeCustomPrompt = judge_prompt judge, includedFields = executor_fields \<rparr>;
          prompt = buildPrompt pf promptBuilder ctx
      in \<lparr> systemPrompt = ep_systemPrompt prompt,
           userPrompt = ep_userPrompt prompt,
           req_context = ctx,
           model = judge_model judge,
           temperature = Some 0.8,
           maxTokens = Some 1000 \<rparr>)"

text \<open>The body of the \<open>try\<close> block of \<open>executeEvaluation\<close>.\<close>

definition execute_try ::
  "platform \<Rightarrow> LLMClient \<Rightarrow> generateText \<Rightarrow> string \<Rightarrow> Judge \<Rightarrow> EvaluationContext
     \<Rightarrow> thrown + EvaluationResult" where
  "execute_try pf llmClient gen cacheId judge ctx =
     (case getProvider llmClient (judge_provider judge) of
        Inl e \<Rightarrow> Inl e
      | Inr provider \<Rightarrow>
          (case evaluate gen cacheId provider (executor_request pf judge ctx) of
             Inl e \<Rightarrow> Inl e
           | Inr response \<Rightarrow> parseEvaluationResponse pf (result response)))"

definition thrown_message :: "thrown \<Rightarrow> string" where
  "thrown_message e = (case e of ErrorObject m \<Rightarrow> m | OtherThrown s \<Rightarrow> s)"

definition executeEvaluation ::
  "platform \<Rightarrow> LLMClient \<Rightarrow> generateText \<Rightarrow> string \<Rightarrow> Judge \<Rightarrow> EvaluationContext
     \<Rightarrow> EvaluationResult" where
  "executeEvaluation pf llmClient gen cacheId judge ctx =
     (case execute_try pf llmClient gen cacheId judge ctx of
        Inr r \<Rightarrow> r
      | Inl e \<Rightarrow>
          \<lparr> verdict = JString ''inconclusive'',
            reasoning = JString (''Evaluation failed: '' @ thrown_message e) \<rparr>)"

section \<open>Rate limiter (\<open>rate-limiter.ts\<close>)\<close>

text \<open>
  \<open>RATE_LIMITS[provider] || 5\<close>, and \<open>pLimit(concurrency)\<close>, which throws a
  \<open>TypeError\<close> unless the concurrency is a positive integer. In \<open>getRateLimit\<close>,
  \<open>None\<close> is a value that is not a number. A limiter bounds how many of the functions
  handed to it run at a time and returns what they return; it is modelled by its
  concurrency.
\<close>

definition RATE_LIMITS :: "(string \<times> nat) list" where
  "RATE_LIMITS = [(''openai'', 50), (''anthropic'', 20), (''gemini'', 30)]"

definition getRateLimit :: "string \<Rightarrow> nat option" where
  "getRateLimit provider =
     (case read_property RATE_LIMITS provider of
        Own n \<Rightarrow> (if n \<noteq> 0 then Some n else Some 5)
      | Inherited \<Rightarrow> None
      | Absent \<Rightarrow> Some 5)"

definition createProviderRateLimiter :: "string \<Rightarrow> thrown + nat" where
  "createProviderRateLimiter provider =
     (case getRateLimit provider of
        Some concurrency \<Rightarrow>
          if 0 < concurrency then Inr concurrency
          else Inl (ErrorObject ''Expected `concurrency` to be a number from 1 and up'')
      | None \<Rightarrow> Inl (ErrorObject ''Expected `concurrency` to be a number from 1 and up''))"

section \<open>Evaluation orchestrator (\<open>evaluation-orchestrator.ts\<close>)\<close>

record QuestionTemplateData =
  question_template_id :: string
  qt_questionType :: string
  qt_questionText :: string

record EvaluationTask =
  answer_id :: string
  task_judge_id :: string
  task_answerData :: jsvalue
  questionTemplateData :: QuestionTemplateData

record TaskError =
  task :: EvaluationTask
  error :: string

record EvaluationSummary =
  total :: nat
  completed :: nat
  failed :: nat
  errors :: "TaskError list"

text \<open>What a task's promise resolves to: \<open>{ success, task, error? }\<close>.\<close>

record TaskResult =
  success :: bool
  res_task :: EvaluationTask
  res_error :: "string option"

subsection \<open>The data store and the rest of the world\<close>

text \<open>
  A query answers \<open>{ data, error }\<close>; \<open>db_error\<close> is the message of the error object.
\<close>

record 'a DbResponse =
  db_data :: "'a option"
  db_error :: "string option"

record QuestionTemplateRow =
  row_question_template_id :: string
  question_text :: string
  question_type :: "string option"

record AnswerRow =
  row_answer_id :: string
  submission_id :: string
  question_revision :: nat
  answer_value :: jsvalue
  question_templates :: QuestionTemplateRow

record AnswerJudgeRow =
  aj_answer_id :: string
  judges :: Judge

record EvaluationRow =
  evaluation_id :: string
  eval_answer_id :: string
  eval_judge_id :: string
  eval_verdict :: jsvalue
  eval_reasoning :: jsvalue
  eval_created_at :: string

text \<open>
  Everything the orchestrator reads from outside: the answers of its queries, the
  model's answers, identifiers and the clock. The judge is read twice for a task, once
  by \<open>groupTasksByProvider\<close> and once inside the task, and the two reads may differ.
\<close>

record world =
  w_platform :: platform
  w_llmClient :: LLMClient
  w_generateText :: generateText
  w_cacheId :: "EvaluationTask \<Rightarrow> string"
  select_answers :: "string \<Rightarrow> AnswerRow list DbResponse"
  select_attachments :: "string list \<Rightarrow> Attachment list DbResponse"
  select_answer_judges :: "string list \<Rightarrow> AnswerJudgeRow list DbResponse"
  select_judge_grouping :: "EvaluationTask \<Rightarrow> Judge DbResponse"
  select_judge :: "EvaluationTask \<Rightarrow> Judge DbResponse"
  insert_evaluation :: "EvaluationRow \<Rightarrow> string option"
  w_evaluationId :: "EvaluationTask \<Rightarrow> string"
  w_now :: "EvaluationTask \<Rightarrow> string"

subsection \<open>\<open>getJudge\<close>, \<open>storeEvaluationResult\<close>\<close>

text \<open>\<open>getJudge(judgeId)\<close>, given what its query answered.\<close>

definition getJudge :: "Judge DbResponse \<Rightarrow> string \<Rightarrow> thrown + Judge" where
  "getJudge response judgeId =
     (case (db_error response, db_data response) of
        (None, Some judge) \<Rightarrow> Inr judge
      | (judgeError, _) \<Rightarrow>
          Inl (ErrorObject
                 (''Failed to fetch judge '' @ judgeId @ '': ''
                    @ (case judgeError of Some m \<Rightarrow> m | None \<Rightarrow> ''undefined''))))"

definition storeEvaluationResult :: "world \<Rightarrow> EvaluationTask \<Rightarrow> EvaluationResult \<Rightarrow> thrown + unit" where
  "storeEvaluationResult w t r =
     (case insert_evaluation w
             \<lparr> evaluation_id = w_evaluationId w t,
               eval_answer_id = answer_id t,
               eval_judge_id = task_judge_id t,
               eval_verdict = verdict r,
               eval_reasoning = reasoning r,
               eval_created_at = w_now w t \<rparr> of
        Some message \<Rightarrow> Inl (ErrorObject (''Failed to store evaluation result: '' @ message))
      | None \<Rightarrow> Inr ())"

subsection \<open>\<open>fetchEvaluationData\<close>, \<open>buildEvaluationTasks\<close>\<close>

definition make_task :: "AnswerRow \<Rightarrow> AnswerJudgeRow \<Rightarrow> EvaluationTask" where
  "make_task answer answerJudge =
     \<lparr> answer_id = row_answer_id answer,
       task_judge_id = judge_id (judges answerJudge),
       task_answerData = answer_value answer,
       questionTemplateData =
         \<lparr> question_template_id = row_question_template_id (question_templates answer),
           qt_questionType =
             (case question_type (question_templates answer) of
                Some t \<Rightarrow> (if t \<noteq> [] then t else ''text'')
              | None \<Rightarrow> ''text''),
           qt_questionText = question_text (question_templates answer) \<rparr> \<rparr>"

definition buildEvaluationTasks :: "world \<Rightarrow> AnswerRow list \<Rightarrow> thrown + EvaluationTask list" where
  "buildEvaluationTasks w answers =
     (let response = select_answer_judges w (map row_answer_id answers)
      in case db_error response of
           Some message \<Rightarrow> Inl (ErrorObject (''Failed to fetch judges: '' @ message))
         | None \<Rightarrow>
             (case db_data response of
                None \<Rightarrow> Inr []
              | Some answerJudges \<Rightarrow>
                  if length answerJudges = 0 then Inr []
                  else Inr (concat (map (\<lambda>answer.
                         map (make_task answer)
                           (filter (\<lambda>aj. aj_answer_id aj = row_answer_id answer) answerJudges))
                         answers))))"

text \<open>The \<open>forEach\<close> that fills \<open>attachmentsByAnswer\<close>.\<close>

definition add_attachment :: "(string \<rightharpoonup> Attachment list) \<Rightarrow> Attachment \<Rightarrow> (string \<rightharpoonup> Attachment list)" where
  "add_attachment m attachment =
     m(att_answer_id attachment \<mapsto>
         (case m (att_answer_id attachment) of Some existing \<Rightarrow> existing | None \<Rightarrow> []) @ [attachment])"

record EvaluationData =
  fetched_answers :: "AnswerRow list"
  attachmentsByAnswer :: "string \<rightharpoonup> Attachment list"
  tasks :: "EvaluationTask list"

definition fetchEvaluationData :: "world \<Rightarrow> string \<Rightarrow> thrown + EvaluationData" where
  "fetchEvaluationData w queueId =
     (let response = select_answers w queueId
      in case db_error response of
           Some message \<Rightarrow> Inl (ErrorObject (''Failed to fetch answers: '' @ message))
         | None \<Rightarrow>
             (let answers = (case db_data response of Some rows \<Rightarrow> rows | None \<Rightarrow> [])
              in if length answers = 0
                 then Inr \<lparr> fetched_answers = [], attachmentsByAnswer = Map.empty, tasks = [] \<rparr>
                 else
                   (let attachments =
                          (case db_data (select_attachments w (map row_answer_id answers)) of
                             Some rows \<Rightarrow> rows | None \<Rightarrow> [])
                    in case buildEvaluationTasks w answers of
                         Inl e \<Rightarrow> Inl e
                       | Inr ts \<Rightarrow>
                           Inr \<lparr> fetched_answers = answers,
                                 attachmentsByAnswer = foldl add_attachment Map.empty attachments,
                                 tasks = ts \<rparr>)))"

subsection \<open>\<open>groupTasksByProvider\<close>\<close>

text \<open>
  The \<open>Map\<close> from provider to tasks keeps its keys in insertion order; \<open>add_task\<close> is
  \<open>if (!has(provider)) set(provider, []); get(provider).push(task)\<close>.
\<close>

fun add_task :: "string \<Rightarrow> EvaluationTask \<Rightarrow> (string \<times> EvaluationTask list) list
    \<Rightarrow> (string \<times> EvaluationTask list) list" where
  "add_task provider t [] = [(provider, [t])]"
| "add_task provider t ((k, ts) # rest) =
     (if k = provider then (k, ts @ [t]) # rest else (k, ts) # add_task provider t rest)"

fun group_loop :: "world \<Rightarrow> EvaluationTask list \<Rightarrow> (string \<times> EvaluationTask list) list
    \<Rightarrow> thrown + (string \<times> EvaluationTask list) list" where
  "group_loop w [] tasksByProvider = Inr tasksByProvider"
| "group_loop w (t # ts) tasksByProvider =
     (case getJudge (select_judge_grouping w t) (task_judge_id t) of
        Inl e \<Rightarrow> Inl e
      | Inr judge \<Rightarrow> group_loop w ts (add_task (judge_provider judge) t tasksByProvider))"

definition groupTasksByProvider :: "world \<Rightarrow> EvaluationTask list
    \<Rightarrow> thrown + (string \<times> EvaluationTask list) list" where
  "groupTasksByProvider w ts = group_loop w ts []"

subsection \<open>\<open>executeEvaluations\<close>, \<open>runEvaluations\<close>\<close>

text \<open>
  The function a task hands to its provider's rate limiter. The limiter decides when
  the function starts, not what it returns, and what the world answers a task does
  not depend on the other tasks here, so the model runs the tasks one after the other.
\<close>

definition task_context :: "(string \<rightharpoonup> Attachment list) \<Rightarrow> EvaluationTask \<Rightarrow> EvaluationContext" where
  "task_context byAnswer t =
     (let atts = (case byAnswer (answer_id t) of Some found \<Rightarrow> found | None \<Rightarrow> [])
      in \<lparr> questionText = qt_questionText (questionTemplateData t),
           questionType = qt_questionType (questionTemplateData t),
           answerData = task_answerData t,
           attachments = Some (map (\<lambda>att. att\<lparr> file_size := None \<rparr>) atts) \<rparr>)"

definition task_try :: "world \<Rightarrow> (string \<rightharpoonup> Attachment list) \<Rightarrow> EvaluationTask \<Rightarrow> thrown + TaskResult" where
  "task_try w byAnswer t =
     (case getJudge (select_judge w t) (task_judge_id t) of
        Inl e \<Rightarrow> Inl e
      | Inr judge \<Rightarrow>
          (let r = executeEvaluation (w_platform w) (w_llmClient w) (w_generateText w)
                     (w_cacheId w t) judge (task_context byAnswer t)
           in case storeEvaluationResult w t r of
                Inl e \<Rightarrow> Inl e
              | Inr u \<Rightarrow> Inr \<lparr> success = True, res_task = t, res_error = None \<rparr>))"

text \<open>The task with its \<open>.catch\<close> handler.\<close>

definition run_task :: "world \<Rightarrow> (string \<rightharpoonup> Attachment list) \<Rightarrow> EvaluationTask \<Rightarrow> TaskResult" where
  "run_task w byAnswer t =
     (case task_try w byAnswer t of
        Inr r \<Rightarrow> r
      | Inl e \<Rightarrow>
          \<lparr> success = False, res_task = t,
            res_error = Some (case e of ErrorObject m \<Rightarrow> m | OtherThrown s \<Rightarrow> ''Unknown error'') \<rparr>)"

text \<open>The body of the aggregation loop, for one result.\<close>

definition count_result :: "EvaluationSummary \<Rightarrow> TaskResult \<Rightarrow> EvaluationSummary" where
  "count_result summary r =
     (if success r then summary\<lparr> completed := completed summary + 1 \<rparr>
      else summary\<lparr> failed := failed summary + 1,
                    errors := errors summary
                      @ [\<lparr> task = res_task r, error = nullish (res_error r) ''Unknown error'' \<rparr>] \<rparr>)"

text \<open>
  The promise of one provider group: it rejects when the limiter cannot be made, and
  otherwise resolves to the results of the group's tasks, none of which rejects.
\<close>

definition provider_promise ::
  "world \<Rightarrow> (string \<rightharpoonup> Attachment list) \<Rightarrow> string \<times> EvaluationTask list
     \<Rightarrow> thrown + TaskResult list" where
  "provider_promise w byAnswer entry =
     (case createProviderRateLimiter (fst entry) of
        Inl e \<Rightarrow> Inl e
      | Inr rateLimiter \<Rightarrow> Inr (map (run_task w byAnswer) (snd entry)))"

text \<open>\<open>Promise.all\<close>: the results in the order of the array, or the first rejection.\<close>

fun promise_all :: "(thrown + 'a) list \<Rightarrow> thrown + 'a list" where
  "promise_all [] = Inr []"
| "promise_all (Inl e # ps) = Inl e"
| "promise_all (Inr x # ps) =
     (case promise_all ps of Inl e \<Rightarrow> Inl e | Inr xs \<Rightarrow> Inr (x # xs))"

definition executeEvaluations :: "world \<Rightarrow> EvaluationTask list \<Rightarrow> (string \<rightharpoonup> Attachment list)
    \<Rightarrow> thrown + EvaluationSummary" where
  "executeEvaluations w ts byAnswer =
     (let summary = \<lparr> total = length ts, completed = 0, failed = 0, errors = [] \<rparr>
      in case groupTasksByProvider w ts of
           Inl e \<Rightarrow> Inl e
         | Inr tasksByProvider \<Rightarrow>
             (case promise_all (map (provider_promise w byAnswer) tasksByProvider) of
                Inl e \<Rightarrow> Inl e
              | Inr allProviderResults \<Rightarrow>
                  Inr (foldl (\<lambda>s providerResults. foldl count_result s providerResults)
                         summary allProviderResults)))"

definition runEvaluations :: "world \<Rightarrow> string \<Rightarrow> thrown + EvaluationSummary" where
  "runEvaluations w queueId =
     (case fetchEvaluationData w queueId of
        Inl e \<Rightarrow> Inl e
      | Inr d \<Rightarrow>
          if length (tasks d) = 0
          then Inr \<lparr> total = 0, completed = 0, failed = 0, errors = [] \<rparr>
          else executeEvaluations w (tasks d) (attachmentsByAnswer d))"

section \<open>Vocabulary of the statements\<close>

text \<open>
  The credential the registry reads for a provider identifier
  (\<open>initializeProviders\<close>), and whether it is there: set and not empty.
\<close>

definition credential_variable :: "string \<Rightarrow> string option" where
  "credential_variable provider =
     (if provider = ''openai'' then Some ''OPENAI_API_KEY''
      else if provider = ''anthropic'' then Some ''ANTHROPIC_API_KEY''
      else if provider = ''gemini'' then Some ''GOOGLE_AI_API_KEY''
      else None)"

definition credential_present :: "environment \<Rightarrow> string \<Rightarrow> bool" where
  "credential_present env provider =
     (case credential_variable provider of
        None \<Rightarrow> False
      | Some v \<Rightarrow> (case env v of Some key \<Rightarrow> key \<noteq> [] | None \<Rightarrow> False))"

text \<open>
  The recogniser's stack has an object at its bottom, or it has finished with an
  object: what holds of every configuration once the first token was \<open>{\<close>.
\<close>

fun object_frame :: "frame \<Rightarrow> bool" where
  "object_frame (FArray es) = False"
| "object_frame (FObject ms) = True"
| "object_frame (FMember ms k) = True"

definition object_bottom :: "frame list \<times> expect \<Rightarrow> bool" where
  "object_bottom cfg =
     (case cfg of (st, e) \<Rightarrow>
        (st \<noteq> [] \<and> object_frame (last st)) \<or> (st = [] \<and> (\<exists>ms. e = Finished (JObject ms))))"

text \<open>Whether a task's promise was fulfilled, and the entry a rejected one leaves.\<close>

definition task_ok :: "world \<Rightarrow> (string \<rightharpoonup> Attachment list) \<Rightarrow> EvaluationTask \<Rightarrow> bool" where
  "task_ok w byAnswer t = success (run_task w byAnswer t)"

definition task_error :: "world \<Rightarrow> (string \<rightharpoonup> Attachment list) \<Rightarrow> EvaluationTask \<Rightarrow> TaskError" where
  "task_error w byAnswer t =
     \<lparr> task = t, error = nullish (res_error (run_task w byAnswer t)) ''Unknown error'' \<rparr>"

text \<open>The attachments of a context, none when the property is absent.\<close>

definition present_attachments :: "'a EvaluationContext_scheme \<Rightarrow> Attachment list" where
  "present_attachments ctx = (case attachments ctx of Some atts \<Rightarrow> atts | None \<Rightarrow> [])"

text \<open>An environment variable is set and not empty.\<close>

definition has_key :: "environment \<Rightarrow> string \<Rightarrow> bool" where
  "has_key env v = (case env v of Some key \<Rightarrow> key \<noteq> [] | None \<Rightarrow> False)"

section \<open>Example inputs\<close>

definition stub_platform :: platform where
  "stub_platform = \<lparr> Number_toString = (\<lambda>n. ''0''), JSON_stringify = (\<lambda>v indent. ''null'') \<rparr>"

definition no_credentials :: environment where
  "no_credentials v = None"

definition openai_only :: environment where
  "openai_only v = (if v = ''OPENAI_API_KEY'' then Some ''sk-test'' else None)"

definition openai_instance :: ProviderInstance where
  "openai_instance = \<lparr> cls = OpenAIProvider, sdk_apiKey = Some ''sk-test'', sdk_baseURL = None \<rparr>"

definition gemini_instance :: ProviderInstance where
  "gemini_instance = \<lparr> cls = GeminiProvider, sdk_apiKey = Some ''g-test'', sdk_baseURL = None \<rparr>"

definition openai_client :: LLMClient where
  "openai_client = \<lparr> providers = Map.empty(''openai'' \<mapsto> openai_instance) \<rparr>"

definition empty_client :: LLMClient where
  "empty_client = \<lparr> providers = Map.empty \<rparr>"

definition answering :: "string \<Rightarrow> generateText" where
  "answering reply args = Inr \<lparr> gen_text = reply, gen_usage = None \<rparr>"

definition failing :: "string \<Rightarrow> generateText" where
  "failing message args = Inl (ErrorObject message)"

definition judge_row :: "string \<Rightarrow> string \<Rightarrow> Judge" where
  "judge_row jid vendor =
     \<lparr> judge_id = jid, judge_name = ''Judge'', judge_provider = vendor, judge_model = ''gpt-4o'',
       judge_prompt = ''Be strict.'', is_active = Some True, judge_created_at = None \<rparr>"

definition sky_context :: EvaluationContext where
  "sky_context =
     \<lparr> questionText = ''Is the sky blue?'', questionType = ''text'',
       answerData = JString ''yes'', attachments = None \<rparr>"

definition photo :: Attachment where
  "photo =
     \<lparr> attachment_id = ''att1'', att_answer_id = ''a1'', url = ''https://files.example/sky.png'',
       att_type = Some ''image/png'', file_size = None, att_created_at = None \<rparr>"

definition sky_context_with_metadata :: EvaluationContextWithMetadata where
  "sky_context_with_metadata =
     \<lparr> questionText = ''Is the sky blue?'', questionType = ''text'',
       answerData = JString ''yes'', attachments = Some [photo],
       submissionMetadata = JObject [(''source'', JString ''web'')] \<rparr>"

definition strict_builder :: "\<lparr>inc_submissionMetadata :: bool\<rparr> PromptBuilder" where
  "strict_builder = \<lparr> judgeCustomPrompt = ''Be strict.'', includedFields = executor_fields \<rparr>"

definition sample_request :: LLMRequest where
  "sample_request =
     \<lparr> systemPrompt = ''Be strict.'', userPrompt = ''Question: Is the sky blue?'',
       req_context = sky_context, model = ''gemini-1.5-pro'',
       temperature = Some 0.8, maxTokens = Some 1000 \<rparr>"

definition answer_row :: "string \<Rightarrow> AnswerRow" where
  "answer_row aid =
     \<lparr> row_answer_id = aid, submission_id = ''s1'', question_revision = 1,
       answer_value = JString ''yes'',
       question_templates =
         \<lparr> row_question_template_id = ''q1'', question_text = ''Is the sky blue?'',
           question_type = None \<rparr> \<rparr>"

definition sample_task :: "string \<Rightarrow> string \<Rightarrow> EvaluationTask" where
  "sample_task aid jid =
     \<lparr> answer_id = aid, task_judge_id = jid, task_answerData = JString ''yes'',
       questionTemplateData =
         \<lparr> question_template_id = ''q1'', qt_questionType = ''text'',
           qt_questionText = ''Is the sky blue?'' \<rparr> \<rparr>"

definition vendor_of :: "string \<Rightarrow> string" where
  "vendor_of jid = (if jid = ''j1'' then ''openai'' else ''anthropic'')"

text \<open>
  Two answers with one active judge each, no provider configured. In \<open>lossy_world\<close>
  the insert for answer \<open>a2\<close> fails; in \<open>flaky_world\<close> every insert succeeds and the
  judge \<open>j2\<close> cannot be read inside its task.
\<close>

definition lossy_world :: world where
  "lossy_world =
     \<lparr> w_platform = stub_platform,
       w_llmClient = empty_client,
       w_generateText = failing ''offline'',
       w_cacheId = (\<lambda>t. ''c0ffee''),
       select_answers = (\<lambda>q. \<lparr> db_data = Some [answer_row ''a1'', answer_row ''a2''], db_error = None \<rparr>),
       select_attachments = (\<lambda>ids. \<lparr> db_data = Some [], db_error = None \<rparr>),
       select_answer_judges = (\<lambda>ids.
         \<lparr> db_data = Some [\<lparr> aj_answer_id = ''a1'', judges = judge_row ''j1'' ''openai'' \<rparr>,
                           \<lparr> aj_answer_id = ''a2'', judges = judge_row ''j2'' ''anthropic'' \<rparr>],
           db_error = None \<rparr>),
       select_judge_grouping = (\<lambda>t.
         \<lparr> db_data = Some (judge_row (task_judge_id t) (vendor_of (task_judge_id t))), db_error = None \<rparr>),
       select_judge = (\<lambda>t.
         \<lparr> db_data = Some (judge_row (task_judge_id t) (vendor_of (task_judge_id t))), db_error = None \<rparr>),
       insert_evaluation = (\<lambda>row. if eval_answer_id row = ''a2'' then Some ''connection lost'' else None),
       w_evaluationId = (\<lambda>t. ''e-'' @ answer_id t),
       w_now = (\<lambda>t. ''2025-01-01T00:00:00.000Z'') \<rparr>"

definition flaky_world :: world where
  "flaky_world =
     lossy_world
       \<lparr> select_judge := (\<lambda>t.
            if task_judge_id t = ''j2'' then \<lparr> db_data = None, db_error = Some ''timeout'' \<rparr>
            else \<lparr> db_data = Some (judge_row (task_judge_id t) (vendor_of (task_judge_id t))),
                   db_error = None \<rparr>),
         insert_evaluation := (\<lambda>row. None) \<rparr>"

text \<open>What \<open>fetchEvaluationData\<close> returns in both worlds.\<close>

definition lossy_data :: EvaluationData where
  "lossy_data =
     \<lparr> fetched_answers = [answer_row ''a1'', answer_row ''a2''],
       attachmentsByAnswer = Map.empty,
       tasks = [sample_task ''a1'' ''j1'', sample_task ''a2'' ''j2''] \<rparr>"

section \<open>Lemmas on strings\<close>

lemma startsWith_iff: "startsWith s k \<longleftrightarrow> (\<exists>post. s = k @ post)"
  by (induction s k rule: startsWith.induct) auto

lemma str_includes_iff: "str_includes s k \<longleftrightarrow> (\<exists>pre post. s = pre @ k @ post)"
proof (induction s)
  case Nil
  then show ?case by simp
next
  case (Cons c cs)
  show ?case
  proof
    assume "str_includes (c # cs) k"
    then consider "startsWith (c # cs) k" | "str_includes cs k" by auto
    then show "\<exists>pre post. c # cs = pre @ k @ post"
    proof cases
      case 1
      then obtain post where "c # cs = k @ post" using startsWith_iff by blast
      then have "c # cs = [] @ k @ post" by simp
      then show ?thesis by blast
    next
      case 2
      then obtain pre post where "cs = pre @ k @ post" using Cons.IH by blast
      then have "c # cs = (c # pre) @ k @ post" by simp
      then show ?thesis by blast
    qed
  next
    assume "\<exists>pre post. c # cs = pre @ k @ post"
    then obtain pre post where eq: "c # cs = pre @ k @ post" by blast
    show "str_includes (c # cs) k"
    proof (cases pre)
      case Nil
      with eq have "startsWith (c # cs) k" using startsWith_iff by auto
      then show ?thesis by simp
    next
      case (Cons p pre')
      with eq have "cs = pre' @ k @ post" by simp
      then have "str_includes cs k" using Cons.IH by blast
      then show ?thesis by simp
    qed
  qed
qed

lemma blank_head:
  "blank s \<Longrightarrow> s = [] \<or> code (hd s) \<in> {9, 10, 11, 12, 13, 32, 0xC2, 0xE1, 0xE2, 0xE3, 0xEF}"
  by (induction s rule: blank.induct) (auto split: if_splits)

lemma not_blank_letter:
  "code a \<notin> {9, 10, 11, 12, 13, 32, 0xC2, 0xE1, 0xE2, 0xE3, 0xEF} \<Longrightarrow> \<not> blank (a # cs)"
  using blank_head [of "a # cs"] by auto

lemma not_blank_failed: "\<not> blank (''Evaluation failed: '' @ m)"
  by (simp add: not_blank_letter code_def)

lemma not_blank_invalid: "\<not> blank (''Invalid verdict received: '' @ m)"
  by (simp add: not_blank_letter code_def)

lemma not_blank_default: "\<not> blank ''No detailed reasoning provided by the judge.''"
  by (simp add: not_blank_letter code_def)

section \<open>The executor returns a well-formed result\<close>

lemma parseEvaluationResponse_ok:
  assumes "parseEvaluationResponse pf x = Inr r"
  shows "verdict r \<in> set validVerdicts \<and> (\<exists>s. reasoning r = JString s \<and> \<not> blank s)"
proof (cases "verdict x \<in> set validVerdicts")
  case False
  with assms show ?thesis
    using not_blank_invalid
    by (auto simp: parseEvaluationResponse_def validVerdicts_def split: option.splits)
next
  case valid: True
  show ?thesis
  proof (cases "truthy (reasoning x)")
    case False
    with valid assms show ?thesis
      using not_blank_default by (auto simp: parseEvaluationResponse_def)
  next
    case True
    show ?thesis
    proof (cases "reasoning x")
      case (JString s)
      with valid True assms show ?thesis
        using not_blank_default
        by (cases "blank s") (auto simp: parseEvaluationResponse_def)
    qed (use valid True assms in \<open>simp_all add: parseEvaluationResponse_def\<close>)
  qed
qed

lemma execute_try_Inr:
  "execute_try pf client gen cacheId judge ctx = Inr r \<Longrightarrow> \<exists>x. parseEvaluationResponse pf x = Inr r"
  by (auto simp: execute_try_def split: sum.splits)

text \<open>What the \<open>try\<close> block throws when the provider is not registered, and when the model call fails.\<close>

lemma execute_try_unconfigured:
  "providers client (judge_provider judge) = None \<Longrightarrow>
   execute_try pf client gen cacheId judge ctx =
     Inl (ErrorObject (''Provider '' @ judge_provider judge @ '' is not configured or not available''))"
  by (simp add: execute_try_def getProvider_def)

lemma execute_try_call_failed:
  "providers client (judge_provider judge) = Some p \<Longrightarrow>
   gen (generateText_args p cacheId (executor_request pf judge ctx)) = Inl e \<Longrightarrow>
   execute_try pf client gen cacheId judge ctx =
     Inl (ErrorObject (failure_prefix (cls p)
            @ (case e of ErrorObject m \<Rightarrow> m | OtherThrown s \<Rightarrow> ''Unknown error'')))"
  by (simp add: execute_try_def getProvider_def evaluate_def)

text \<open>
  C1. For every judge, context, registry and behaviour of the model call (any text, or
  a throw), \<open>executeEvaluation\<close> returns a result whose verdict is one of \<open>pass\<close>,
  \<open>fail\<close>, \<open>inconclusive\<close> and whose reasoning is a string that is not empty (nor
  blank); and whatever the \<open>try\<close> block throws, with message \<open>m\<close>, the result is
  \<open>inconclusive\<close> with reasoning \<open>Evaluation failed: m\<close>. The function is total: the
  \<open>catch\<close> turns every throw of the block into a value.
\<close>

theorem executeEvaluation_well_formed:
  "verdict (executeEvaluation pf client gen cacheId judge ctx)
     \<in> {JString ''pass'', JString ''fail'', JString ''inconclusive''}
   \<and> (\<exists>s. reasoning (executeEvaluation pf client gen cacheId judge ctx) = JString s
          \<and> s \<noteq> [] \<and> \<not> blank s)
   \<and> (\<forall>e. execute_try pf client gen cacheId judge ctx = Inl e \<longrightarrow>
          executeEvaluation pf client gen cacheId judge ctx =
            \<lparr> verdict = JString ''inconclusive'',
              reasoning = JString (''Evaluation failed: '' @ thrown_message e) \<rparr>)"
proof -
  define out where "out = executeEvaluation pf client gen cacheId judge ctx"
  have wf: "verdict out \<in> set validVerdicts \<and> (\<exists>s. reasoning out = JString s \<and> \<not> blank s)"
  proof (cases "execute_try pf client gen cacheId judge ctx")
    case (Inl e)
    then show ?thesis
      using not_blank_failed
      by (simp add: out_def executeEvaluation_def validVerdicts_def)
  next
    case (Inr r)
    then obtain x where "parseEvaluationResponse pf x = Inr r"
      using execute_try_Inr by blast
    then have "verdict r \<in> set validVerdicts \<and> (\<exists>s. reasoning r = JString s \<and> \<not> blank s)"
      by (rule parseEvaluationResponse_ok)
    with Inr show ?thesis
      by (simp add: out_def executeEvaluation_def)
  qed
  from wf have v: "verdict out \<in> {JString ''pass'', JString ''fail'', JString ''inconclusive''}"
    by (simp add: validVerdicts_def)
  from wf obtain s where s: "reasoning out = JString s" "\<not> blank s" by blast
  then have "s \<noteq> []" by auto
  with s have r: "\<exists>s. reasoning out = JString s \<and> s \<noteq> [] \<and> \<not> blank s" by blast
  have c: "\<forall>e. execute_try pf client gen cacheId judge ctx = Inl e \<longrightarrow>
             out = \<lparr> verdict = JString ''inconclusive'',
                     reasoning = JString (''Evaluation failed: '' @ thrown_message e) \<rparr>"
    by (simp add: out_def executeEvaluation_def)
  from v r c show ?thesis unfolding out_def by blast
qed

text \<open>
  The model answers \<open>{"verdict":"pass","reasoning":5}\<close>: the verdict is valid, the
  reasoning is a number, \<open>trim\<close> is not a function of it, and the \<open>catch\<close> answers.
\<close>

theorem executeEvaluation_well_formed_witness:
  \<open>execute_try stub_platform openai_client (answering ''{"verdict":"pass","reasoning":5}'')
       ''c0ffee'' (judge_row ''j1'' ''openai'') sky_context = Inl trim_not_a_function
   \<and> executeEvaluation stub_platform openai_client (answering ''{"verdict":"pass","reasoning":5}'')
       ''c0ffee'' (judge_row ''j1'' ''openai'') sky_context =
       \<lparr> verdict = JString ''inconclusive'',
         reasoning = JString ''Evaluation failed: result.reasoning.trim is not a function'' \<rparr>\<close>
proof -
  have t: \<open>execute_try stub_platform openai_client (answering ''{"verdict":"pass","reasoning":5}'')
             ''c0ffee'' (judge_row ''j1'' ''openai'') sky_context = Inl trim_not_a_function\<close>
    by code_simp
  from executeEvaluation_well_formed
         [of stub_platform openai_client \<open>answering ''{"verdict":"pass","reasoning":5}''\<close>
             "''c0ffee''" "judge_row ''j1'' ''openai''" sky_context] t
  show ?thesis
    by (simp add: thrown_message_def trim_not_a_function_def)
qed

section \<open>The adapters' parser\<close>

subsection \<open>The match of the regular expression\<close>

lemma jsonMatch_decompose:
  assumes "CHR ''{'' \<notin> set pre" "CHR ''}'' \<notin> set post"
  shows "jsonMatch (pre @ CHR ''{'' # mid @ CHR ''}'' # post) = Some (CHR ''{'' # mid @ [CHR ''}''])"
proof -
  have 1: "dropWhile (\<lambda>c. c \<noteq> CHR ''{'') (pre @ CHR ''{'' # mid @ CHR ''}'' # post)
           = CHR ''{'' # mid @ CHR ''}'' # post"
    using assms(1) by (auto simp: dropWhile_append3)
  have 2: "rev (CHR ''{'' # mid @ CHR ''}'' # post) = rev post @ CHR ''}'' # rev mid @ [CHR ''{'']"
    by simp
  have 3: "dropWhile (\<lambda>c. c \<noteq> CHR ''}'') (rev post @ CHR ''}'' # rev mid @ [CHR ''{''])
           = CHR ''}'' # rev mid @ [CHR ''{'']"
    using assms(2) by (auto simp: dropWhile_append3)
  show ?thesis
    unfolding jsonMatch_def Let_def 1 2 3 by simp
qed

lemma jsonMatch_None_iff:
  "jsonMatch s = None \<longleftrightarrow> CHR ''}'' \<notin> set (dropWhile (\<lambda>c. c \<noteq> CHR ''{'') s)"
  unfolding jsonMatch_def Let_def by (auto simp: dropWhile_eq_Nil_conv split: if_splits)

lemma jsonMatch_Some_shape:
  assumes "jsonMatch s = Some m"
  shows "\<exists>pre mid post. s = pre @ m @ post \<and> m = CHR ''{'' # mid @ [CHR ''}'']
           \<and> CHR ''{'' \<notin> set pre \<and> CHR ''}'' \<notin> set post"
proof -
  define fb where "fb = dropWhile (\<lambda>c. c \<noteq> CHR ''{'') s"
  define pre where "pre = takeWhile (\<lambda>c. c \<noteq> CHR ''{'') s"
  define post where "post = rev (takeWhile (\<lambda>c. c \<noteq> CHR ''}'') (rev fb))"
  have m: "m = rev (dropWhile (\<lambda>c. c \<noteq> CHR ''}'') (rev fb))" and ne: "m \<noteq> []"
    using assms unfolding jsonMatch_def Let_def fb_def by (auto split: if_splits)
  have split_s: "s = pre @ fb" by (simp add: pre_def fb_def)
  have split_fb: "fb = m @ post"
  proof -
    have "rev (takeWhile (\<lambda>c. c \<noteq> CHR ''}'') (rev fb) @ dropWhile (\<lambda>c. c \<noteq> CHR ''}'') (rev fb))
          = rev (rev fb)"
      by (simp only: takeWhile_dropWhile_id)
    then show ?thesis unfolding m post_def by (simp only: rev_append rev_rev_ident)
  qed
  have pre_ok: "CHR ''{'' \<notin> set pre"
    unfolding pre_def by (auto dest: set_takeWhileD)
  have post_ok: "CHR ''}'' \<notin> set post"
    unfolding post_def by (auto dest: set_takeWhileD)
  have fb_ne: "dropWhile (\<lambda>c. c \<noteq> CHR ''{'') s \<noteq> []"
    using split_fb ne by (simp add: fb_def)
  have "\<not> hd (dropWhile (\<lambda>c. c \<noteq> CHR ''{'') s) \<noteq> CHR ''{''"
    using fb_ne by (rule hd_dropWhile)
  then have hd_fb: "hd fb = CHR ''{''" by (simp add: fb_def)
  have hd_m: "hd m = CHR ''{''" using hd_fb split_fb ne by simp
  have d_ne: "dropWhile (\<lambda>c. c \<noteq> CHR ''}'') (rev fb) \<noteq> []" using m ne by simp
  have "\<not> hd (dropWhile (\<lambda>c. c \<noteq> CHR ''}'') (rev fb)) \<noteq> CHR ''}''"
    using d_ne by (rule hd_dropWhile)
  then have last_m: "last m = CHR ''}''"
    using d_ne by (simp add: m last_rev)
  from ne hd_m obtain tl_m where tl: "m = CHR ''{'' # tl_m" by (cases m) simp_all
  have "tl_m \<noteq> []"
  proof
    assume "tl_m = []"
    with tl last_m show False by simp
  qed
  then have "tl_m = butlast tl_m @ [last tl_m]" by simp
  moreover have "last tl_m = CHR ''}''" using last_m tl \<open>tl_m \<noteq> []\<close> by simp
  ultimately have shape: "m = CHR ''{'' # butlast tl_m @ [CHR ''}'']" using tl by simp
  have "s = pre @ m @ post" using split_s split_fb by simp
  with shape pre_ok post_ok show ?thesis by blast
qed

subsection \<open>A text that starts with a brace parses to an object or not at all\<close>

lemma deliver_object_bottom:
  "deliver v st = Some cfg \<Longrightarrow> st \<noteq> [] \<Longrightarrow> object_frame (last st) \<Longrightarrow> object_bottom cfg"
  by (cases "(v, st)" rule: deliver.cases) (auto simp: object_bottom_def split: if_splits)

lemma start_value_object_bottom:
  "start_value t st = Some cfg \<Longrightarrow> st \<noteq> [] \<Longrightarrow> object_frame (last st) \<Longrightarrow> object_bottom cfg"
  by (cases t) (auto simp: object_bottom_def dest: deliver_object_bottom)

lemma close_object_bottom:
  "deliver v st = Some cfg \<Longrightarrow> object_frame (last (f # st)) \<Longrightarrow>
   (st = [] \<longrightarrow> (\<exists>ms. v = JObject ms)) \<Longrightarrow> object_bottom cfg"
  by (cases "(v, st)" rule: deliver.cases) (auto simp: object_bottom_def split: if_splits)

lemma step_object_bottom:
  assumes "step (st, e) t = Some cfg" "object_bottom (st, e)"
  shows "object_bottom cfg"
proof (cases st)
  case Nil
  with assms show ?thesis by (auto simp: object_bottom_def)
next
  case (Cons f st')
  then have ne: "st \<noteq> []" and ob: "object_frame (last st)"
    using assms(2) by (auto simp: object_bottom_def)
  show ?thesis
  proof (cases e)
    case ExpValue
    with assms(1) ne ob show ?thesis by (auto dest: start_value_object_bottom)
  next
    case ExpValueOrClose
    with assms(1) Cons ob show ?thesis
      by (cases f) (auto split: if_splits dest: start_value_object_bottom close_object_bottom)
  next
    case ExpKeyOrClose
    with assms(1) Cons ob show ?thesis
      by (cases f; cases t) (auto simp: object_bottom_def split: if_splits dest: close_object_bottom)
  next
    case ExpKey
    with assms(1) Cons ob show ?thesis
      by (cases f; cases t) (auto simp: object_bottom_def split: if_splits)
  next
    case (ExpColon k)
    with assms(1) Cons ob show ?thesis
      by (cases f) (auto simp: object_bottom_def split: if_splits)
  next
    case ExpCommaOrClose
    with assms(1) Cons ob show ?thesis
      by (cases f) (auto simp: object_bottom_def split: if_splits dest: close_object_bottom)
  next
    case (Finished v)
    with assms(1) Cons show ?thesis by (cases f) auto
  qed
qed

lemma run_object_bottom:
  "object_bottom cfg \<Longrightarrow> run cfg ts = Some v \<Longrightarrow> \<exists>ms. v = JObject ms"
proof (induction ts arbitrary: cfg)
  case Nil
  then show ?case
    by (cases cfg) (auto simp: object_bottom_def split: list.splits expect.splits)
next
  case (Cons t ts)
  obtain st e where cfg: "cfg = (st, e)" by (cases cfg)
  with Cons.prems(2) obtain cfg' where s: "step (st, e) t = Some cfg'" and r: "run cfg' ts = Some v"
    by (auto split: option.splits)
  from s Cons.prems(1) cfg have "object_bottom cfg'" using step_object_bottom by blast
  with r show ?case using Cons.IH by blast
qed

lemma lex_brace: "lex (CHR ''{'' # cs) = map_option ((#) LBrace) (lex cs)"
  by (simp add: is_ws_def punctuation_def)

lemma JSON_parse_brace_object:
  assumes "JSON_parse (CHR ''{'' # cs) = Some v"
  shows "\<exists>ms. v = JObject ms"
proof -
  from assms obtain ts where ts: "lex cs = Some ts" and r: "run ([], ExpValue) (LBrace # ts) = Some v"
    unfolding JSON_parse_def lex_brace by (auto split: option.splits)
  from r have "run ([FObject []], ExpKeyOrClose) ts = Some v" by simp
  moreover have "object_bottom ([FObject []], ExpKeyOrClose)" by (simp add: object_bottom_def)
  ultimately show ?thesis using run_object_bottom by blast
qed

lemma jsonMatch_parse_object:
  assumes "jsonMatch s = Some m" "JSON_parse m = Some v"
  shows "\<exists>ms. v = JObject ms"
proof -
  from assms(1) obtain mid where "m = CHR ''{'' # mid @ [CHR ''}'']"
    using jsonMatch_Some_shape by blast
  with assms(2) show ?thesis using JSON_parse_brace_object by blast
qed

subsection \<open>The three outcomes of \<open>parseEvaluationResult\<close>\<close>

lemma parse_object:
  assumes "jsonMatch s = Some m" "JSON_parse m = Some (JObject ms)"
  shows "parseEvaluationResult c s =
           \<lparr> verdict = js_or (own_property ms ''verdict'') (JString ''inconclusive''),
             reasoning = js_or (own_property ms ''reasoning'') (JString s) \<rparr>"
  using assms by (simp add: parseEvaluationResult_def parse_try_def JSON_parse_or_throw_def)

lemma parse_syntax_error:
  assumes "jsonMatch s = Some m" "JSON_parse m = None"
  shows "parseEvaluationResult c s = \<lparr> verdict = JString ''inconclusive'', reasoning = JString s \<rparr>"
  using assms by (simp add: parseEvaluationResult_def parse_try_def JSON_parse_or_throw_def)

lemma parse_keywords:
  assumes "jsonMatch s = None"
  shows "parseEvaluationResult c s = \<lparr> verdict = JString (keyword_verdict s), reasoning = JString s \<rparr>"
  using assms by (simp add: parseEvaluationResult_def parse_try_def)

text \<open>
  C3 (as amended). Every adapter tries JSON before keywords, and the candidate is the
  greedy match: for a text \<open>pre { mid } post\<close> with no \<open>{\<close> in \<open>pre\<close> and no \<open>}\<close> in
  \<open>post\<close>, the result is decided by \<open>{ mid }\<close> alone. If it parses, to an object
  \<open>ms\<close>, the verdict is the object's \<open>verdict\<close> (\<open>inconclusive\<close> when that is missing or
  falsy) and the reasoning its \<open>reasoning\<close> (the raw text when missing or falsy); if it
  does not parse, the result is \<open>inconclusive\<close> with the raw text. In neither case do
  keywords in \<open>pre\<close> and \<open>post\<close> count.
\<close>

theorem json_before_keywords:
  assumes "CHR ''{'' \<notin> set pre" and "CHR ''}'' \<notin> set post"
  shows "(\<forall>ms. JSON_parse (CHR ''{'' # mid @ [CHR ''}'']) = Some (JObject ms) \<longrightarrow>
            parseEvaluationResult c (pre @ CHR ''{'' # mid @ CHR ''}'' # post) =
              \<lparr> verdict = js_or (own_property ms ''verdict'') (JString ''inconclusive''),
                reasoning = js_or (own_property ms ''reasoning'')
                              (JString (pre @ CHR ''{'' # mid @ CHR ''}'' # post)) \<rparr>)
       \<and> (JSON_parse (CHR ''{'' # mid @ [CHR ''}'']) = None \<longrightarrow>
            parseEvaluationResult c (pre @ CHR ''{'' # mid @ CHR ''}'' # post) =
              \<lparr> verdict = JString ''inconclusive'',
                reasoning = JString (pre @ CHR ''{'' # mid @ CHR ''}'' # post) \<rparr>)
       \<and> (JSON_parse (CHR ''{'' # mid @ [CHR ''}'']) = None
            \<or> (\<exists>ms. JSON_parse (CHR ''{'' # mid @ [CHR ''}'']) = Some (JObject ms)))"
proof -
  have m: "jsonMatch (pre @ CHR ''{'' # mid @ CHR ''}'' # post) = Some (CHR ''{'' # mid @ [CHR ''}''])"
    using assms by (rule jsonMatch_decompose)
  have "JSON_parse (CHR ''{'' # mid @ [CHR ''}'']) = None
          \<or> (\<exists>ms. JSON_parse (CHR ''{'' # mid @ [CHR ''}'']) = Some (JObject ms))"
    using JSON_parse_brace_object [of "mid @ [CHR ''}'']"]
    by (cases "JSON_parse (CHR ''{'' # mid @ [CHR ''}''])") auto
  with m show ?thesis
    using parse_object [OF m] parse_syntax_error [OF m] by blast
qed

text \<open>
  The prose says fail and bad, the object says pass: the object decides.
\<close>

theorem json_before_keywords_witness:
  \<open>parseEvaluationResult AnthropicProvider
      ''I would say fail. {"verdict":"pass","reasoning":"Looks correct"} Not bad.'' =
     \<lparr> verdict = JString ''pass'', reasoning = JString ''Looks correct'' \<rparr>\<close>
proof -
  have p: \<open>JSON_parse (CHR ''{'' # ''"verdict":"pass","reasoning":"Looks correct"'' @ [CHR ''}''])
             = Some (JObject [(''verdict'', JString ''pass''), (''reasoning'', JString ''Looks correct'')])\<close>
    by code_simp
  have pre: "CHR ''{'' \<notin> set ''I would say fail. ''" by simp
  have post: "CHR ''}'' \<notin> set '' Not bad.''" by simp
  from json_before_keywords [OF pre post, of \<open>''"verdict":"pass","reasoning":"Looks correct"''\<close> AnthropicProvider] p
  show ?thesis
    by (simp add: js_or_def own_property_def)
qed

text \<open>
  C3 as stated fails at a text with a second pair of braces after the object. The text
  contains the object \<open>{"verdict":"fail","reasoning":"r"}\<close>, which parses and has the
  verdict \<open>fail\<close>, and the word \<open>pass\<close> in the prose; the match runs to the last
  brace, does not parse, and the adapter answers \<open>inconclusive\<close>.
\<close>

theorem json_verdict_counterexample:
  \<open>JSON_parse ''{"verdict":"fail","reasoning":"r"}''
     = Some (JObject [(''verdict'', JString ''fail''), (''reasoning'', JString ''r'')])
   \<and> jsonMatch ''{"verdict":"fail","reasoning":"r"} no pass, see {notes}''
     = Some ''{"verdict":"fail","reasoning":"r"} no pass, see {notes}''
   \<and> parseEvaluationResult OpenAIProvider ''{"verdict":"fail","reasoning":"r"} no pass, see {notes}''
     = \<lparr> verdict = JString ''inconclusive'',
         reasoning = JString ''{"verdict":"fail","reasoning":"r"} no pass, see {notes}'' \<rparr>\<close>
  by code_simp

text \<open>
  C4 (as amended). When no \<open>}\<close> follows the first \<open>{\<close> of the text, the adapter scans
  for keywords and the reasoning is the raw text; and when moreover the lower-cased
  text does not contain \<open>incorrect\<close>, the verdict is \<open>pass\<close> if it contains \<open>pass\<close>,
  \<open>correct\<close> or \<open>good\<close>, otherwise \<open>fail\<close> if it contains \<open>fail\<close> or \<open>bad\<close>, otherwise
  \<open>inconclusive\<close>.
\<close>

theorem keyword_fallback:
  assumes "CHR ''}'' \<notin> set (dropWhile (\<lambda>c. c \<noteq> CHR ''{'') s)"
  shows "reasoning (parseEvaluationResult c s) = JString s
       \<and> (\<not> str_includes (toLowerCase s) ''incorrect'' \<longrightarrow>
            verdict (parseEvaluationResult c s) =
              JString (if str_includes (toLowerCase s) ''pass''
                          \<or> str_includes (toLowerCase s) ''correct''
                          \<or> str_includes (toLowerCase s) ''good'' then ''pass''
                       else if str_includes (toLowerCase s) ''fail''
                          \<or> str_includes (toLowerCase s) ''bad'' then ''fail''
                       else ''inconclusive''))"
proof -
  have "jsonMatch s = None" using assms by (simp add: jsonMatch_None_iff)
  then have "parseEvaluationResult c s
               = \<lparr> verdict = JString (keyword_verdict s), reasoning = JString s \<rparr>"
    by (rule parse_keywords)
  then show ?thesis by (simp add: keyword_verdict_def Let_def)
qed

theorem keyword_fallback_witness:
  "parseEvaluationResult GeminiProvider ''This submission seems fine and correct overall.''
     = \<lparr> verdict = JString ''pass'',
         reasoning = JString ''This submission seems fine and correct overall.'' \<rparr>"
proof -
  have a: "CHR ''}'' \<notin> set (dropWhile (\<lambda>c. c \<noteq> CHR ''{'')
             ''This submission seems fine and correct overall.'')"
    by simp
  have b: "\<not> str_includes (toLowerCase ''This submission seems fine and correct overall.'') ''incorrect''"
    by code_simp
  have c: "str_includes (toLowerCase ''This submission seems fine and correct overall.'') ''correct''"
    by code_simp
  from keyword_fallback [OF a, of GeminiProvider] b c
  show ?thesis
    by (cases "parseEvaluationResult GeminiProvider ''This submission seems fine and correct overall.''")
       simp
qed

text \<open>
  C4 as stated fails three ways. \<open>good {job}\<close> holds no JSON object and contains
  \<open>good\<close>, and the verdict is \<open>inconclusive\<close>: a pair of braces that is not JSON ends in
  the \<open>catch\<close>. \<open>pass or fail\<close> contains \<open>fail\<close> and the verdict is \<open>pass\<close>. And
  \<open>incorrect\<close> contains \<open>incorrect\<close> and the verdict is \<open>pass\<close>, since it contains
  \<open>correct\<close>.
\<close>

theorem keyword_fallback_counterexample:
  "verdict (parseEvaluationResult OpenAIProvider ''good {job}'') = JString ''inconclusive''
   \<and> verdict (parseEvaluationResult OpenAIProvider ''pass or fail'') = JString ''pass''
   \<and> verdict (parseEvaluationResult OpenAIProvider ''incorrect'') = JString ''pass''"
  by code_simp

text \<open>
  C10. Whenever the match of the text parses, it parses to an object, and the result
  takes each field from it unless the field is missing or falsy: then the reasoning is
  the whole raw text and the verdict is \<open>inconclusive\<close>. The raw text is not empty,
  so the reasoning never is the empty string.
\<close>

theorem json_defaults:
  assumes "jsonMatch s = Some m" and "JSON_parse m = Some parsed"
  shows "\<exists>ms. parsed = JObject ms
       \<and> reasoning (parseEvaluationResult c s) =
           (if truthy (own_property ms ''reasoning'') then own_property ms ''reasoning''
            else JString s)
       \<and> verdict (parseEvaluationResult c s) =
           (if truthy (own_property ms ''verdict'') then own_property ms ''verdict''
            else JString ''inconclusive'')
       \<and> (map_of (rev ms) ''reasoning'' = None \<longrightarrow> reasoning (parseEvaluationResult c s) = JString s)
       \<and> (map_of (rev ms) ''verdict'' = None \<longrightarrow>
            verdict (parseEvaluationResult c s) = JString ''inconclusive'')
       \<and> s \<noteq> []
       \<and> reasoning (parseEvaluationResult c s) \<noteq> JString []"
proof -
  from assms obtain ms where ms: "parsed = JObject ms"
    using jsonMatch_parse_object by blast
  have r: "parseEvaluationResult c s =
             \<lparr> verdict = js_or (own_property ms ''verdict'') (JString ''inconclusive''),
               reasoning = js_or (own_property ms ''reasoning'') (JString s) \<rparr>"
    using assms ms by (simp add: parse_object)
  have ne: "s \<noteq> []"
    using assms(1) jsonMatch_Some_shape [of s m] by auto
  have "reasoning (parseEvaluationResult c s) \<noteq> JString []"
    using ne by (cases "own_property ms ''reasoning''") (auto simp: r js_or_def)
  with ms r ne show ?thesis
    by (simp add: js_or_def own_property_def)
qed

text \<open>An object without \<open>reasoning\<close> and with an empty \<open>verdict\<close>.\<close>

theorem json_defaults_witness:
  \<open>jsonMatch ''Verdict: {"verdict":""}'' = Some ''{"verdict":""}''
   \<and> JSON_parse ''{"verdict":""}'' = Some (JObject [(''verdict'', JString [])])
   \<and> parseEvaluationResult OpenAIProvider ''Verdict: {"verdict":""}''
       = \<lparr> verdict = JString ''inconclusive'', reasoning = JString ''Verdict: {"verdict":""}'' \<rparr>\<close>
proof -
  have a: \<open>jsonMatch ''Verdict: {"verdict":""}'' = Some ''{"verdict":""}''\<close>
    by code_simp
  have b: \<open>JSON_parse ''{"verdict":""}'' = Some (JObject [(''verdict'', JString [])])\<close>
    by code_simp
  from json_defaults [OF a b, of OpenAIProvider] a b
  show ?thesis
    by (cases \<open>parseEvaluationResult OpenAIProvider ''Verdict: {"verdict":""}''\<close>)
       (simp add: own_property_def)
qed

section \<open>The user prompt\<close>

text \<open>
  C6 (as amended). The user prompt is the sections question text, question type,
  formatted answer data and formatted attachments, in this order, each left out when
  its flag is false (the attachments also when the context has none), joined by blank
  lines and followed by the closing instruction. There is no submission-metadata
  section: neither a \<open>submissionMetadata\<close> flag nor a \<open>submissionMetadata\<close> property of
  the context changes the prompt.
\<close>

theorem user_prompt_sections:
  "buildUserPrompt pf this ctx =
     join ''\<newline>\<newline>''
       (map snd (filter fst
          [(inc_questionText (includedFields this), ''Question: '' @ questionText ctx),
           (inc_questionType (includedFields this), ''Question Type: '' @ questionType ctx),
           (inc_answerData (includedFields this),
              ''Answer: '' @ formatAnswerData pf (answerData ctx)),
           (inc_attachments (includedFields this) \<and> present_attachments ctx \<noteq> [],
              ''Attachments: '' @ formatAttachments (present_attachments ctx))]))
     @ ''\<newline>\<newline>'' @ closing_instruction
   \<and> buildUserPrompt pf
        (builder\<lparr> includedFields := (includedFields builder)\<lparr> inc_submissionMetadata := flag \<rparr> \<rparr>)
        (context\<lparr> submissionMetadata := metadata \<rparr>)
      = buildUserPrompt pf builder context"
proof
  show "buildUserPrompt pf this ctx =
     join ''\<newline>\<newline>''
       (map snd (filter fst
          [(inc_questionText (includedFields this), ''Question: '' @ questionText ctx),
           (inc_questionType (includedFields this), ''Question Type: '' @ questionType ctx),
           (inc_answerData (includedFields this),
              ''Answer: '' @ formatAnswerData pf (answerData ctx)),
           (inc_attachments (includedFields this) \<and> present_attachments ctx \<noteq> [],
              ''Attachments: '' @ formatAttachments (present_attachments ctx))]))
     @ ''\<newline>\<newline>'' @ closing_instruction"
    by (cases "attachments ctx")
       (simp_all add: buildUserPrompt_def sections_def present_attachments_def)
  have "sections pf
          (builder\<lparr> includedFields := (includedFields builder)\<lparr> inc_submissionMetadata := flag \<rparr> \<rparr>)
          (context\<lparr> submissionMetadata := metadata \<rparr>)
        = sections pf builder context"
    by (simp add: sections_def split: option.splits)
  then show "buildUserPrompt pf
        (builder\<lparr> includedFields := (includedFields builder)\<lparr> inc_submissionMetadata := flag \<rparr> \<rparr>)
        (context\<lparr> submissionMetadata := metadata \<rparr>)
      = buildUserPrompt pf builder context"
    by (simp add: buildUserPrompt_def)
qed

theorem user_prompt_sections_witness:
  "buildUserPrompt stub_platform strict_builder sky_context_with_metadata =
     ''Question: Is the sky blue?\<newline>\<newline>Question Type: text\<newline>\<newline>Answer: yes\<newline>\<newline>Attachments: image/png - https://files.example/sky.png\<newline>\<newline>Please evaluate the above submission according to your criteria and provide your assessment.''"
proof -
  have flags: "inc_questionText (includedFields strict_builder)"
    "inc_questionType (includedFields strict_builder)"
    "inc_answerData (includedFields strict_builder)"
    "inc_attachments (includedFields strict_builder)"
    by (simp_all add: strict_builder_def executor_fields_def)
  have fields: "questionText sky_context_with_metadata = ''Is the sky blue?''"
    "questionType sky_context_with_metadata = ''text''"
    "formatAnswerData stub_platform (answerData sky_context_with_metadata) = ''yes''"
    "present_attachments sky_context_with_metadata = [photo]"
    by (simp_all add: sky_context_with_metadata_def formatAnswerData_def present_attachments_def)
  have att: "formatAttachments [photo] = ''image/png - https://files.example/sky.png''"
    by (simp add: formatAttachments_def type_or_def photo_def)
  from user_prompt_sections
         [where pf = stub_platform and this = strict_builder and ctx = sky_context_with_metadata,
          THEN conjunct1]
  show ?thesis
    by (simp add: flags fields att closing_instruction_def)
qed

text \<open>
  C6 as stated fails where the metadata flag is set and the context carries metadata:
  the prompt has no such section.
\<close>

theorem user_prompt_metadata_counterexample:
  "inc_submissionMetadata (includedFields strict_builder)
   \<and> submissionMetadata sky_context_with_metadata = JObject [(''source'', JString ''web'')]
   \<and> \<not> str_includes (buildUserPrompt stub_platform strict_builder sky_context_with_metadata)
          ''Metadata''"
  by code_simp

section \<open>The registry\<close>

lemma register_known:
  assumes "read_property PROVIDER_CONFIGS name = Own config"
  shows "register_if_key env name v client =
           Inr (if has_key env v
                then client\<lparr> providers := (providers client)
                       (name \<mapsto> new_provider env (config_class config) (the (env v)) None) \<rparr>
                else client)"
  using assms
  by (auto simp: register_if_key_def createProvider_def has_key_def split: option.splits)

lemma configs:
  "read_property PROVIDER_CONFIGS ''openai'' = Own (snd (PROVIDER_CONFIGS ! 0))"
  "read_property PROVIDER_CONFIGS ''anthropic'' = Own (snd (PROVIDER_CONFIGS ! 1))"
  "read_property PROVIDER_CONFIGS ''gemini'' = Own (snd (PROVIDER_CONFIGS ! 2))"
  by (simp_all add: read_property_def PROVIDER_CONFIGS_def)

text \<open>The registry the constructor builds: a provider is in the map exactly when its key is set.\<close>

lemma new_LLMClient_providers:
  "\<exists>client. new_LLMClient env = Inr client
     \<and> (\<forall>provider. (providers client provider \<noteq> None) = credential_present env provider)"
proof -
  let ?c0 = "\<lparr> providers = Map.empty \<rparr>"
  obtain c1 where c1: "register_if_key env ''openai'' ''OPENAI_API_KEY'' ?c0 = Inr c1"
    and p1: "\<And>x. (providers c1 x \<noteq> None) = (x = ''openai'' \<and> has_key env ''OPENAI_API_KEY'')"
    using register_known [OF configs(1), of env "''OPENAI_API_KEY''" ?c0] by auto
  obtain c2 where c2: "register_if_key env ''anthropic'' ''ANTHROPIC_API_KEY'' c1 = Inr c2"
    and p2: "\<And>x. (providers c2 x \<noteq> None) =
               (providers c1 x \<noteq> None \<or> (x = ''anthropic'' \<and> has_key env ''ANTHROPIC_API_KEY''))"
    using register_known [OF configs(2), of env "''ANTHROPIC_API_KEY''" c1] by auto
  obtain c3 where c3: "register_if_key env ''gemini'' ''GOOGLE_AI_API_KEY'' c2 = Inr c3"
    and p3: "\<And>x. (providers c3 x \<noteq> None) =
               (providers c2 x \<noteq> None \<or> (x = ''gemini'' \<and> has_key env ''GOOGLE_AI_API_KEY''))"
    using register_known [OF configs(3), of env "''GOOGLE_AI_API_KEY''" c2] by auto
  have "new_LLMClient env = Inr c3"
    by (simp add: new_LLMClient_def initializeProviders_def c1 c2 c3)
  moreover have "(providers c3 x \<noteq> None) = credential_present env x" for x
    unfolding p3 p2 p1
    by (auto simp: credential_present_def credential_variable_def has_key_def split: option.splits)
  ultimately show ?thesis by blast
qed

text \<open>
  C7 (as amended). The constructor always succeeds, and in the registry it builds,
  for every identifier: \<open>isProviderAvailable\<close> is true exactly when that provider's
  credential is set (and not empty); \<open>getProvider\<close> returns an adapter then, and
  otherwise, also for an unknown identifier, fails with the not-configured error.
  \<open>getAvailableProviders\<close> is the list of the three supported identifiers, whatever the
  credentials.
\<close>

theorem registry_availability:
  "\<exists>client. new_LLMClient env = Inr client
     \<and> (\<forall>provider.
           isProviderAvailable client provider = credential_present env provider
         \<and> (credential_present env provider \<longrightarrow> (\<exists>p. getProvider client provider = Inr p))
         \<and> (\<not> credential_present env provider \<longrightarrow>
              getProvider client provider =
                Inl (ErrorObject (''Provider '' @ provider @ '' is not configured or not available''))))
     \<and> client_getAvailableProviders client = [''openai'', ''anthropic'', ''gemini'']"
proof -
  obtain client where c: "new_LLMClient env = Inr client"
    and p: "\<And>provider. (providers client provider \<noteq> None) = credential_present env provider"
    using new_LLMClient_providers by blast
  have "isProviderAvailable client provider = credential_present env provider" for provider
    using p by (simp add: isProviderAvailable_def)
  moreover have "credential_present env provider \<longrightarrow> (\<exists>q. getProvider client provider = Inr q)"
    for provider
    using p [of provider] by (auto simp: getProvider_def split: option.splits)
  moreover have "\<not> credential_present env provider \<longrightarrow>
      getProvider client provider =
        Inl (ErrorObject (''Provider '' @ provider @ '' is not configured or not available''))"
    for provider
    using p [of provider] by (auto simp: getProvider_def split: option.splits)
  moreover have "client_getAvailableProviders client = [''openai'', ''anthropic'', ''gemini'']"
    by (simp add: client_getAvailableProviders_def getAvailableProviders_def PROVIDER_CONFIGS_def)
  ultimately show ?thesis using c by blast
qed

lemma new_LLMClient_openai_only: "new_LLMClient openai_only = Inr openai_client"
  by (simp add: new_LLMClient_def initializeProviders_def register_if_key_def openai_only_def
        createProvider_def read_property_def PROVIDER_CONFIGS_def new_provider_def openai_client_def
        openai_instance_def)

theorem registry_availability_witness:
  "new_LLMClient openai_only = Inr openai_client
   \<and> credential_present openai_only ''openai''
   \<and> isProviderAvailable openai_client ''openai''
   \<and> getProvider openai_client ''openai'' = Inr openai_instance
   \<and> \<not> credential_present openai_only ''gemini''
   \<and> \<not> isProviderAvailable openai_client ''gemini''
   \<and> getProvider openai_client ''gemini'' =
       Inl (ErrorObject ''Provider gemini is not configured or not available'')
   \<and> client_getAvailableProviders openai_client = [''openai'', ''anthropic'', ''gemini'']"
proof -
  have a: "credential_present openai_only ''openai''"
    by (simp add: credential_present_def credential_variable_def openai_only_def)
  have b: "\<not> credential_present openai_only ''gemini''"
    by (simp add: credential_present_def credential_variable_def openai_only_def)
  have g: "getProvider openai_client ''openai'' = Inr openai_instance"
    by (simp add: getProvider_def openai_client_def)
  from registry_availability [of openai_only] new_LLMClient_openai_only a b g
  show ?thesis by auto
qed

text \<open>
  C7 as stated fails for the list: with no credential at all, \<open>openai\<close> is not
  available and is in the list of available providers.
\<close>

theorem registry_list_counterexample:
  "new_LLMClient no_credentials = Inr empty_client
   \<and> \<not> credential_present no_credentials ''openai''
   \<and> \<not> isProviderAvailable empty_client ''openai''
   \<and> ''openai'' \<in> set (client_getAvailableProviders empty_client)"
  by (simp add: new_LLMClient_def initializeProviders_def register_if_key_def no_credentials_def
        empty_client_def credential_present_def credential_variable_def isProviderAvailable_def
        client_getAvailableProviders_def getAvailableProviders_def PROVIDER_CONFIGS_def)

section \<open>Model validation\<close>

text \<open>Where the factory's table and the adapters' lists agree.\<close>

lemma validateModel_openai:
  "validateModel ''openai'' m = Inr (adapter_validateModel OpenAIProvider m)"
  by (auto simp: validateModel_def read_property_def adapter_validateModel_def PROVIDER_CONFIGS_def)

lemma validateModel_gemini:
  "validateModel ''gemini'' m = Inr (adapter_validateModel GeminiProvider m)"
  by (auto simp: validateModel_def read_property_def adapter_validateModel_def PROVIDER_CONFIGS_def)

text \<open>
  C8. The registry's validation reads the factory's table, not the adapter, and for
  Anthropic the two lists differ: the adapter accepts \<open>claude-3-sonnet-20240229\<close> (and
  \<open>claude-3-haiku-20240307\<close>), the registry rejects them.
\<close>

theorem allow_lists_disagree:
  "validateProviderConfig openai_client ''anthropic'' ''claude-3-sonnet-20240229'' = Inr False
   \<and> adapter_validateModel AnthropicProvider ''claude-3-sonnet-20240229'' = True
   \<and> validateProviderConfig openai_client ''anthropic'' ''claude-3-haiku-20240307'' = Inr False
   \<and> adapter_validateModel AnthropicProvider ''claude-3-haiku-20240307'' = True"
  by (simp add: validateProviderConfig_def validateModel_def read_property_def
        adapter_validateModel_def PROVIDER_CONFIGS_def)

section \<open>The arguments of the model call\<close>

text \<open>What every adapter passes on: the temperature; and two of the three, the token limit.\<close>

lemma call_temperature_default:
  "call_temperature (generateText_args p cacheId request)
     = (case temperature request of Some t \<Rightarrow> t | None \<Rightarrow> 0.7)"
  by (simp add: generateText_args_def nullish_def)

lemma maxOutputTokens_default:
  "cls p \<noteq> GeminiProvider \<Longrightarrow>
   maxOutputTokens (generateText_args p cacheId request)
     = Some (case maxTokens request of Some n \<Rightarrow> n | None \<Rightarrow> 1000)"
  by (cases "cls p") (simp_all add: generateText_args_def nullish_def)

text \<open>
  C9. The Gemini adapter passes no token limit: the request asks for 1000 tokens, as
  the executor's requests do, and the call has no \<open>maxOutputTokens\<close>, while the
  OpenAI adapter passes 1000 for the same request.
\<close>

theorem gemini_drops_maxTokens:
  "maxTokens sample_request = Some 1000
   \<and> maxOutputTokens (generateText_args gemini_instance ''c0ffee'' sample_request) = None
   \<and> maxOutputTokens (generateText_args openai_instance ''c0ffee'' sample_request) = Some 1000"
  by (simp add: generateText_args_def sample_request_def gemini_instance_def openai_instance_def
        nullish_def)

section \<open>The orchestrator's summary\<close>

subsection \<open>Grouping keeps every task once\<close>

lemma add_task_mset:
  "mset (concat (map snd (add_task provider t g))) = add_mset t (mset (concat (map snd g)))"
  by (induction provider t g rule: add_task.induct) auto

lemma group_loop_mset:
  "group_loop w ts g = Inr g' \<Longrightarrow>
   mset (concat (map snd g')) = mset ts + mset (concat (map snd g))"
proof (induction ts arbitrary: g)
  case Nil
  then show ?case by simp
next
  case (Cons t ts)
  show ?case
  proof (cases "getJudge (select_judge_grouping w t) (task_judge_id t)")
    case (Inl e)
    with Cons.prems show ?thesis by simp
  next
    case (Inr judge)
    with Cons.prems have "group_loop w ts (add_task (judge_provider judge) t g) = Inr g'"
      by simp
    then have "mset (concat (map snd g'))
        = mset ts + mset (concat (map snd (add_task (judge_provider judge) t g)))"
      by (rule Cons.IH)
    then show ?thesis by (simp add: add_task_mset)
  qed
qed

lemma groupTasksByProvider_mset:
  "groupTasksByProvider w ts = Inr g \<Longrightarrow> mset (concat (map snd g)) = mset ts"
  using group_loop_mset [of w ts "[]" g] by (simp add: groupTasksByProvider_def)

subsection \<open>The aggregation loop counts every result once\<close>

lemma foldl_count_result:
  "EvaluationSummary.total (foldl count_result s rs) = EvaluationSummary.total s
   \<and> completed (foldl count_result s rs) = completed s + length (filter success rs)
   \<and> failed (foldl count_result s rs) = failed s + length (filter (\<lambda>r. \<not> success r) rs)
   \<and> errors (foldl count_result s rs) =
        errors s @ map (\<lambda>r. \<lparr> task = res_task r, error = nullish (res_error r) ''Unknown error'' \<rparr>)
                     (filter (\<lambda>r. \<not> success r) rs)"
proof (induction rs arbitrary: s)
  case Nil
  then show ?case by simp
next
  case (Cons r rs)
  show ?case
    unfolding foldl_Cons
    by (cases "success r") (simp_all add: Cons.IH count_result_def)
qed

lemma foldl_nested: "foldl (\<lambda>s rs. foldl f s rs) s rss = foldl f s (concat rss)"
  by (induction rss arbitrary: s) simp_all

lemma promise_all_results:
  "promise_all (map (provider_promise w byAnswer) g) = Inr rss \<Longrightarrow>
   concat rss = map (run_task w byAnswer) (concat (map snd g))"
proof (induction g arbitrary: rss)
  case Nil
  then show ?case by simp
next
  case (Cons entry g)
  from Cons.prems obtain limit where
    "provider_promise w byAnswer entry = Inr (map (run_task w byAnswer) (snd entry))"
    by (cases "createProviderRateLimiter (fst entry)") (auto simp: provider_promise_def)
  with Cons.prems obtain rest where
    rest: "promise_all (map (provider_promise w byAnswer) g) = Inr rest" and
    rss: "rss = map (run_task w byAnswer) (snd entry) # rest"
    by (cases "promise_all (map (provider_promise w byAnswer) g)") auto
  from rest have "concat rest = map (run_task w byAnswer) (concat (map snd g))"
    by (rule Cons.IH)
  with rss show ?case by simp
qed

lemma executeEvaluations_summary:
  assumes "executeEvaluations w ts byAnswer = Inr s"
  shows "\<exists>order. mset order = mset ts
       \<and> EvaluationSummary.total s = length ts
       \<and> completed s = length (filter (task_ok w byAnswer) order)
       \<and> failed s = length (filter (\<lambda>t. \<not> task_ok w byAnswer t) order)
       \<and> errors s = map (task_error w byAnswer) (filter (\<lambda>t. \<not> task_ok w byAnswer t) order)"
proof -
  from assms obtain g where g: "groupTasksByProvider w ts = Inr g"
    by (cases "groupTasksByProvider w ts") (auto simp: executeEvaluations_def)
  from assms g obtain rss where
    rss: "promise_all (map (provider_promise w byAnswer) g) = Inr rss"
    by (cases "promise_all (map (provider_promise w byAnswer) g)")
       (auto simp: executeEvaluations_def)
  define order where "order = concat (map snd g)"
  define s0 where "s0 = \<lparr> total = length ts, completed = 0, failed = 0, errors = [] \<rparr>"
  have "concat rss = map (run_task w byAnswer) order"
    using rss by (simp add: order_def promise_all_results)
  then have s: "s = foldl count_result s0 (map (run_task w byAnswer) order)"
    using assms g rss
    by (simp add: executeEvaluations_def foldl_nested s0_def)
  have order: "mset order = mset ts"
    using g by (simp add: order_def groupTasksByProvider_mset)
  have ok: "filter success (map (run_task w byAnswer) order)
              = map (run_task w byAnswer) (filter (task_ok w byAnswer) order)"
    by (simp add: filter_map comp_def task_ok_def [abs_def])
  have bad: "filter (\<lambda>r. \<not> success r) (map (run_task w byAnswer) order)
              = map (run_task w byAnswer) (filter (\<lambda>t. \<not> task_ok w byAnswer t) order)"
    by (simp add: filter_map comp_def task_ok_def [abs_def])
  have res_task: "res_task (run_task w byAnswer t) = t" for t
    by (auto simp: run_task_def task_try_def Let_def split: sum.splits)
  have "EvaluationSummary.total s = length ts"
    using foldl_count_result [of s0 "map (run_task w byAnswer) order"] by (simp add: s s0_def)
  moreover have "completed s = length (filter (task_ok w byAnswer) order)"
    using foldl_count_result [of s0 "map (run_task w byAnswer) order"]
    by (simp add: s s0_def ok)
  moreover have "failed s = length (filter (\<lambda>t. \<not> task_ok w byAnswer t) order)"
    using foldl_count_result [of s0 "map (run_task w byAnswer) order"]
    by (simp add: s s0_def bad)
  moreover have "errors s = map (task_error w byAnswer) (filter (\<lambda>t. \<not> task_ok w byAnswer t) order)"
    using foldl_count_result [of s0 "map (run_task w byAnswer) order"]
    by (simp add: s s0_def bad task_error_def res_task comp_def)
  ultimately show ?thesis using order by blast
qed

lemma length_filter_mset:
  "mset xs = mset ys \<Longrightarrow> length (filter P xs) = length (filter P ys)"
proof -
  assume "mset xs = mset ys"
  then have "mset (filter P xs) = mset (filter P ys)" by simp
  then show ?thesis by (rule mset_eq_length)
qed

lemma length_filter_partition:
  "length (filter P xs) + length (filter (\<lambda>x. \<not> P x) xs) = length xs"
  by (induction xs) auto

text \<open>What \<open>runEvaluations\<close> returns, in terms of the tasks built for the queue.\<close>

lemma runEvaluations_summary:
  assumes "runEvaluations w queueId = Inr s"
  shows "\<exists>d order. fetchEvaluationData w queueId = Inr d
       \<and> mset order = mset (tasks d)
       \<and> EvaluationSummary.total s = length (tasks d)
       \<and> completed s = length (filter (task_ok w (attachmentsByAnswer d)) order)
       \<and> failed s = length (filter (\<lambda>t. \<not> task_ok w (attachmentsByAnswer d) t) order)
       \<and> errors s = map (task_error w (attachmentsByAnswer d))
                       (filter (\<lambda>t. \<not> task_ok w (attachmentsByAnswer d) t) order)"
proof -
  from assms obtain d where d: "fetchEvaluationData w queueId = Inr d"
    by (auto simp: runEvaluations_def split: sum.splits)
  show ?thesis
  proof (cases "tasks d = []")
    case True
    with assms d have "s = \<lparr> total = 0, completed = 0, failed = 0, errors = [] \<rparr>"
      by (simp add: runEvaluations_def)
    with True d show ?thesis by (intro exI [of _ d] exI [of _ "[]"]) simp
  next
    case False
    with assms d have "executeEvaluations w (tasks d) (attachmentsByAnswer d) = Inr s"
      by (simp add: runEvaluations_def)
    from executeEvaluations_summary [OF this] d show ?thesis by blast
  qed
qed

text \<open>
  C2. Every summary \<open>runEvaluations\<close> returns has \<open>completed + failed = total\<close>, where
  \<open>total\<close> is the number of tasks built for the queue; \<open>completed\<close> counts the tasks
  whose promise was fulfilled and \<open>failed\<close> those whose promise was rejected, so each
  task is in exactly one of the two counts; and \<open>failed\<close> is the length of the error list.
\<close>

theorem no_task_loss:
  assumes "runEvaluations w queueId = Inr s"
  shows "completed s + failed s = EvaluationSummary.total s
       \<and> failed s = length (errors s)
       \<and> (\<exists>d. fetchEvaluationData w queueId = Inr d
             \<and> EvaluationSummary.total s = length (tasks d)
             \<and> completed s = length (filter (task_ok w (attachmentsByAnswer d)) (tasks d))
             \<and> failed s = length (filter (\<lambda>t. \<not> task_ok w (attachmentsByAnswer d) t) (tasks d)))"
proof -
  from runEvaluations_summary [OF assms] obtain d order where
    d: "fetchEvaluationData w queueId = Inr d" and
    order: "mset order = mset (tasks d)" and
    total: "EvaluationSummary.total s = length (tasks d)" and
    completed: "completed s = length (filter (task_ok w (attachmentsByAnswer d)) order)" and
    failed: "failed s = length (filter (\<lambda>t. \<not> task_ok w (attachmentsByAnswer d) t) order)" and
    errors: "errors s = map (task_error w (attachmentsByAnswer d))
                          (filter (\<lambda>t. \<not> task_ok w (attachmentsByAnswer d) t) order)"
    by blast
  have c: "completed s = length (filter (task_ok w (attachmentsByAnswer d)) (tasks d))"
    using completed length_filter_mset [OF order] by simp
  have f: "failed s = length (filter (\<lambda>t. \<not> task_ok w (attachmentsByAnswer d) t) (tasks d))"
    using failed length_filter_mset [OF order] by simp
  have "completed s + failed s = EvaluationSummary.total s"
    unfolding c f total by (rule length_filter_partition)
  moreover have "failed s = length (errors s)"
    by (simp add: failed errors)
  ultimately show ?thesis using d total c f by blast
qed

text \<open>Two tasks, one insert fails: one completed, one failed, two in total.\<close>

theorem no_task_loss_witness:
  "runEvaluations lossy_world ''q1'' =
     Inr \<lparr> total = 2, completed = 1, failed = 1,
           errors = [\<lparr> task = sample_task ''a2'' ''j2'',
                       error = ''Failed to store evaluation result: connection lost'' \<rparr>] \<rparr>
   \<and> (1::nat) + 1 = 2"
proof -
  have r: "runEvaluations lossy_world ''q1'' =
     Inr \<lparr> total = 2, completed = 1, failed = 1,
           errors = [\<lparr> task = sample_task ''a2'' ''j2'',
                       error = ''Failed to store evaluation result: connection lost'' \<rparr>] \<rparr>"
    by code_simp
  from no_task_loss [OF r] r show ?thesis by simp
qed

subsection \<open>What is in the error list\<close>

lemma getJudge_throws:
  "getJudge response judgeId = Inl e \<Longrightarrow> \<exists>m. e = ErrorObject m"
  by (auto simp: getJudge_def split: option.splits prod.splits)

lemma storeEvaluationResult_throws:
  "storeEvaluationResult w t r = Inl e \<Longrightarrow>
   \<exists>m. insert_evaluation w
          \<lparr> evaluation_id = w_evaluationId w t, eval_answer_id = answer_id t,
            eval_judge_id = task_judge_id t, eval_verdict = verdict r,
            eval_reasoning = reasoning r, eval_created_at = w_now w t \<rparr> = Some m
      \<and> e = ErrorObject (''Failed to store evaluation result: '' @ m)"
  by (auto simp: storeEvaluationResult_def split: option.splits)

text \<open>A task's promise is fulfilled exactly when its judge is read and its row inserted.\<close>

lemma task_ok_iff:
  "task_ok w byAnswer t \<longleftrightarrow>
     (\<exists>judge. getJudge (select_judge w t) (task_judge_id t) = Inr judge
        \<and> storeEvaluationResult w t
            (executeEvaluation (w_platform w) (w_llmClient w) (w_generateText w) (w_cacheId w t)
               judge (task_context byAnswer t)) = Inr ())"
  by (auto simp: task_ok_def run_task_def task_try_def Let_def split: sum.splits)

lemma task_error_cases:
  assumes "\<not> task_ok w byAnswer t"
  shows "getJudge (select_judge w t) (task_judge_id t)
           = Inl (ErrorObject (error (task_error w byAnswer t)))
       \<or> (\<exists>judge. getJudge (select_judge w t) (task_judge_id t) = Inr judge
            \<and> storeEvaluationResult w t
                (executeEvaluation (w_platform w) (w_llmClient w) (w_generateText w)
                   (w_cacheId w t) judge (task_context byAnswer t))
              = Inl (ErrorObject (error (task_error w byAnswer t))))"
proof (cases "getJudge (select_judge w t) (task_judge_id t)")
  case (Inl e)
  then obtain m where "e = ErrorObject m" using getJudge_throws by blast
  with Inl show ?thesis
    by (simp add: task_error_def run_task_def task_try_def nullish_def)
next
  case (Inr judge)
  let ?r = "executeEvaluation (w_platform w) (w_llmClient w) (w_generateText w)
              (w_cacheId w t) judge (task_context byAnswer t)"
  from assms Inr obtain e where e: "storeEvaluationResult w t ?r = Inl e"
    by (cases "storeEvaluationResult w t ?r") (auto simp: task_ok_iff)
  then obtain m where "e = ErrorObject m" using storeEvaluationResult_throws by blast
  with Inr e show ?thesis
    by (simp add: task_error_def run_task_def task_try_def nullish_def Let_def)
qed

text \<open>
  C5 (as amended). In a returned summary every entry of the error list belongs to a
  task of the queue and carries the message of what made that task's promise reject:
  the read of the judge inside the task, or else the insert of the evaluation row;
  nothing else can. A task counts as completed exactly when its judge was read and its
  row inserted, whatever the verdict; every other task is failed and has one entry.
\<close>

theorem failure_list:
  assumes "runEvaluations w queueId = Inr s" and "fetchEvaluationData w queueId = Inr d"
  shows "(\<forall>entry \<in> set (errors s).
            task entry \<in> set (tasks d)
          \<and> (getJudge (select_judge w (task entry)) (task_judge_id (task entry))
               = Inl (ErrorObject (error entry))
             \<or> (\<exists>judge. getJudge (select_judge w (task entry)) (task_judge_id (task entry)) = Inr judge
                  \<and> storeEvaluationResult w (task entry)
                      (executeEvaluation (w_platform w) (w_llmClient w) (w_generateText w)
                         (w_cacheId w (task entry)) judge
                         (task_context (attachmentsByAnswer d) (task entry)))
                    = Inl (ErrorObject (error entry)))))
       \<and> (\<forall>t \<in> set (tasks d).
            task_ok w (attachmentsByAnswer d) t \<longleftrightarrow>
              (\<exists>judge. getJudge (select_judge w t) (task_judge_id t) = Inr judge
                 \<and> storeEvaluationResult w t
                     (executeEvaluation (w_platform w) (w_llmClient w) (w_generateText w)
                        (w_cacheId w t) judge (task_context (attachmentsByAnswer d) t)) = Inr ()))
       \<and> completed s = length (filter (task_ok w (attachmentsByAnswer d)) (tasks d))
       \<and> mset (errors s) =
           image_mset (task_error w (attachmentsByAnswer d))
             (filter_mset (\<lambda>t. \<not> task_ok w (attachmentsByAnswer d) t) (mset (tasks d)))"
proof -
  from runEvaluations_summary [OF assms(1)] assms(2) obtain order where
    order: "mset order = mset (tasks d)" and
    completed: "completed s = length (filter (task_ok w (attachmentsByAnswer d)) order)" and
    errors: "errors s = map (task_error w (attachmentsByAnswer d))
                          (filter (\<lambda>t. \<not> task_ok w (attachmentsByAnswer d) t) order)"
    by auto
  have set_order: "set order = set (tasks d)"
    using order by (rule mset_eq_setD)
  have entries: "task entry \<in> set (tasks d)
       \<and> (getJudge (select_judge w (task entry)) (task_judge_id (task entry))
            = Inl (ErrorObject (error entry))
          \<or> (\<exists>judge. getJudge (select_judge w (task entry)) (task_judge_id (task entry)) = Inr judge
               \<and> storeEvaluationResult w (task entry)
                   (executeEvaluation (w_platform w) (w_llmClient w) (w_generateText w)
                      (w_cacheId w (task entry)) judge
                      (task_context (attachmentsByAnswer d) (task entry)))
                 = Inl (ErrorObject (error entry))))"
    if "entry \<in> set (errors s)" for entry
  proof -
    from that errors obtain t where t: "t \<in> set order" "\<not> task_ok w (attachmentsByAnswer d) t"
      and entry: "entry = task_error w (attachmentsByAnswer d) t"
      by auto
    have "task entry = t" by (simp add: entry task_error_def)
    with t set_order task_error_cases [OF t(2)] entry show ?thesis by simp
  qed
  have c: "completed s = length (filter (task_ok w (attachmentsByAnswer d)) (tasks d))"
    using completed length_filter_mset [OF order] by simp
  have m: "mset (errors s) =
           image_mset (task_error w (attachmentsByAnswer d))
             (filter_mset (\<lambda>t. \<not> task_ok w (attachmentsByAnswer d) t) (mset (tasks d)))"
    unfolding errors by (simp add: order)
  from entries c m show ?thesis
    using task_ok_iff by blast
qed

text \<open>
  In \<open>lossy_world\<close> the one entry is the failed insert for answer \<open>a2\<close>; the task for
  \<open>a1\<close> is completed although no provider is configured and its verdict is
  \<open>inconclusive\<close>.
\<close>

theorem failure_list_witness:
  "runEvaluations lossy_world ''q1'' =
     Inr \<lparr> total = 2, completed = 1, failed = 1,
           errors = [\<lparr> task = sample_task ''a2'' ''j2'',
                       error = ''Failed to store evaluation result: connection lost'' \<rparr>] \<rparr>
   \<and> tasks lossy_data = [sample_task ''a1'' ''j1'', sample_task ''a2'' ''j2'']
   \<and> storeEvaluationResult lossy_world (sample_task ''a2'' ''j2'')
        (executeEvaluation (w_platform lossy_world) (w_llmClient lossy_world)
           (w_generateText lossy_world) (w_cacheId lossy_world (sample_task ''a2'' ''j2''))
           (judge_row ''j2'' ''anthropic'')
           (task_context (attachmentsByAnswer lossy_data) (sample_task ''a2'' ''j2'')))
      = Inl (ErrorObject ''Failed to store evaluation result: connection lost'')
   \<and> task_ok lossy_world (attachmentsByAnswer lossy_data) (sample_task ''a1'' ''j1'')"
proof -
  have r: "runEvaluations lossy_world ''q1'' =
     Inr \<lparr> total = 2, completed = 1, failed = 1,
           errors = [\<lparr> task = sample_task ''a2'' ''j2'',
                       error = ''Failed to store evaluation result: connection lost'' \<rparr>] \<rparr>"
    by code_simp
  have d: "fetchEvaluationData lossy_world ''q1'' = Inr lossy_data"
    by (simp add: lossy_data_def fetchEvaluationData_def lossy_world_def buildEvaluationTasks_def
          make_task_def answer_row_def judge_row_def sample_task_def Let_def)
  have ts: "tasks lossy_data = [sample_task ''a1'' ''j1'', sample_task ''a2'' ''j2'']"
    by (simp add: lossy_data_def)
  have j: "getJudge (select_judge lossy_world (sample_task ''a2'' ''j2''))
             (task_judge_id (sample_task ''a2'' ''j2'')) = Inr (judge_row ''j2'' ''anthropic'')"
    by (simp add: getJudge_def lossy_world_def sample_task_def vendor_of_def)
  have ok: "task_ok lossy_world (attachmentsByAnswer lossy_data) (sample_task ''a1'' ''j1'')"
    by code_simp
  from failure_list [OF r d] r ts j ok show ?thesis
    by (auto simp: getJudge_def)
qed

text \<open>
  C5 as stated fails in \<open>flaky_world\<close>: every insert succeeds, the judge of the second
  task cannot be read inside the task, and that error is in the list.
\<close>

theorem failure_list_counterexample:
  "runEvaluations flaky_world ''q1'' =
     Inr \<lparr> total = 2, completed = 1, failed = 1,
           errors = [\<lparr> task = sample_task ''a2'' ''j2'',
                       error = ''Failed to fetch judge j2: timeout'' \<rparr>] \<rparr>
   \<and> storeEvaluationResult flaky_world (sample_task ''a2'' ''j2'')
        \<lparr> verdict = JString ''pass'', reasoning = JString ''fine'' \<rparr> = Inr ()"
  by code_simp

end
